theory Spec2Isabelle
  imports Main "HOL-Library.AList"
begin

section \<open>Python values and exceptions\<close>

text \<open>
  The values that flow through \<^verbatim>\<open>wikia.py\<close>: what \<^verbatim>\<open>r.json()\<close> decodes and what the caller
  passes in. A decoded object keeps its members in arrival order, as a Python dict does,
  and is meant with distinct keys. Floating-point numbers are left out of the universe.
\<close>

datatype json =
    JNull
  | JBool bool
  | JInt int
  | JStr string
  | JList "json list"
  | JDict "(string \<times> json) list"

text \<open>
  A message built by \<^verbatim>\<open>template.format(*args)\<close> is kept as the template with its
  arguments, in the order the source passes them.
\<close>

datatype message = Fmt string "json list"

text \<open>
  The exceptions the module can raise. \<^verbatim>\<open>PageError\<close> carries the title or the page id,
  \<^verbatim>\<open>DisambiguationError\<close> the title and the candidates. \<^verbatim>\<open>NotModelled\<close> marks the places
  where the embedding does not follow Python (rendering a container with \<^verbatim>\<open>str\<close>, the
  facet loaders that \<^verbatim>\<open>preload\<close> triggers).
\<close>

datatype pyerror =
    KeyError string
  | IndexError
  | TypeError
  | AttributeError string
  | NameError string
  | ValueError string
  | AssertionError
  | ConnectionError
  | WikiaError message
  | HTTPTimeoutError json
  | PageError "string option" "json option"
  | RedirectError json
  | DisambiguationError json "string list"
  | NotModelled string

definition ebind :: "'e + 'a \<Rightarrow> ('a \<Rightarrow> 'e + 'b) \<Rightarrow> 'e + 'b" where
  "ebind m f = (case m of Inl e \<Rightarrow> Inl e | Inr x \<Rightarrow> f x)"

text \<open>Truth value of a Python object, as \<^verbatim>\<open>if x\<close>, \<^verbatim>\<open>not x\<close> and \<^verbatim>\<open>x or y\<close> take it.\<close>

fun py_truthy :: "json \<Rightarrow> bool" where
  "py_truthy JNull = False"
| "py_truthy (JBool b) = b"
| "py_truthy (JInt i) = (i \<noteq> 0)"
| "py_truthy (JStr s) = (s \<noteq> [])"
| "py_truthy (JList xs) = (xs \<noteq> [])"
| "py_truthy (JDict d) = (d \<noteq> [])"

text \<open>\<^verbatim>\<open>s in t\<close> for two strings: \<^verbatim>\<open>s\<close> occurs in \<^verbatim>\<open>t\<close> as a contiguous piece.\<close>

fun py_substr :: "string \<Rightarrow> string \<Rightarrow> bool" where
  "py_substr s [] = (s = [])"
| "py_substr s (c # cs) = (take (length s) (c # cs) = s \<or> py_substr s cs)"

text \<open>\<^verbatim>\<open>k in v\<close> for a string \<^verbatim>\<open>k\<close>: key of a dict, element of a list, piece of a string.\<close>

fun py_contains :: "string \<Rightarrow> json \<Rightarrow> pyerror + bool" where
  "py_contains k (JDict d) = Inr (map_of d k \<noteq> None)"
| "py_contains k (JList xs) = Inr (JStr k \<in> set xs)"
| "py_contains k (JStr s) = Inr (py_substr k s)"
| "py_contains k JNull = Inl TypeError"
| "py_contains k (JBool b) = Inl TypeError"
| "py_contains k (JInt i) = Inl TypeError"

text \<open>\<^verbatim>\<open>v[k]\<close> for a string key.\<close>

fun py_getitem :: "json \<Rightarrow> string \<Rightarrow> pyerror + json" where
  "py_getitem (JDict d) k = (case map_of d k of None \<Rightarrow> Inl (KeyError k) | Some v \<Rightarrow> Inr v)"
| "py_getitem v k = Inl TypeError"

text \<open>\<^verbatim>\<open>v[0]\<close>: the first element of a list, the first character of a string.\<close>

fun py_first :: "json \<Rightarrow> pyerror + json" where
  "py_first (JList []) = Inl IndexError"
| "py_first (JList (x # xs)) = Inr x"
| "py_first (JStr []) = Inl IndexError"
| "py_first (JStr (c # cs)) = Inr (JStr [c])"
| "py_first (JDict d) = Inl (KeyError ''0'')"
| "py_first v = Inl TypeError"

text \<open>\<^verbatim>\<open>v.values()\<close>: only a dict has the method.\<close>

fun py_values :: "json \<Rightarrow> pyerror + json list" where
  "py_values (JDict d) = Inr (map snd d)"
| "py_values v = Inl (AttributeError ''values'')"

text \<open>\<^verbatim>\<open>for x in v\<close>: the elements of a list, the keys of a dict, the characters of a string.\<close>

fun py_iter :: "json \<Rightarrow> pyerror + json list" where
  "py_iter (JList xs) = Inr xs"
| "py_iter (JDict d) = Inr (map (\<lambda>kv. JStr (fst kv)) d)"
| "py_iter (JStr s) = Inr (map (\<lambda>c. JStr [c]) s)"
| "py_iter v = Inl TypeError"

text \<open>Decimal digits of an integer, as \<^verbatim>\<open>str\<close> prints it.\<close>

fun show_nat :: "nat \<Rightarrow> string" where
  "show_nat n =
     (if n < 10 then [char_of (48 + n)] else show_nat (n div 10) @ [char_of (48 + n mod 10)])"

definition show_int :: "int \<Rightarrow> string" where
  "show_int i = (if i < 0 then CHR ''-'' # show_nat (nat (- i)) else show_nat (nat i))"

text \<open>\<^verbatim>\<open>str(v)\<close>, as \<^verbatim>\<open>format\<close> renders a field; the rendering of containers is not modelled.\<close>

fun py_str :: "json \<Rightarrow> pyerror + string" where
  "py_str JNull = Inr ''None''"
| "py_str (JBool b) = Inr (if b then ''True'' else ''False'')"
| "py_str (JInt i) = Inr (show_int i)"
| "py_str (JStr s) = Inr s"
| "py_str v = Inl (NotModelled ''str of a container'')"

section \<open>Process-wide state and the outside world\<close>

text \<open>
  The module's globals, and the world the gateway talks to. Times are microseconds
  (the resolution of \<^verbatim>\<open>datetime\<close> and \<^verbatim>\<open>timedelta\<close>). \<^verbatim>\<open>pending\<close> holds the answers the
  server will give, in order, each with the time its round trip takes; a request with
  nothing pending fails in the transport. \<^verbatim>\<open>dispatched\<close> logs every call of
  \<^verbatim>\<open>requests.get\<close> with the clock at that moment, \<^verbatim>\<open>slept\<close> every call of
  \<^verbatim>\<open>time.sleep\<close> with its argument in seconds. Reading the clock takes no time.
  \<^verbatim>\<open>cache\<close> holds the stored entries of each wrapped function.
\<close>

datatype http_body = NotJson | Json json

text \<open>
  The functions the module wraps with \<^verbatim>\<open>@cache\<close>: \<^verbatim>\<open>search\<close>, \<^verbatim>\<open>summary\<close> and
  \<^verbatim>\<open>languages\<close>. Each has its own store, keyed by the positional and the keyword
  arguments of the call.
\<close>

datatype cached_func = Search | Summary | Languages

record request =
  sent_at :: int
  req_url :: string
  req_params :: "(string \<times> json) list"
  req_headers :: "(string \<times> string) list"

record world =
  LANG :: string
  RATE_LIMIT :: bool
  RATE_LIMIT_MIN_WAIT :: "int option"
  RATE_LIMIT_LAST_CALL :: "int option"
  USER_AGENT :: string
  clock :: int
  pending :: "(int \<times> http_body) list"
  dispatched :: "request list"
  slept :: "int list"
  cache :: "cached_func \<Rightarrow> ((json list \<times> (string \<times> json) list) \<times> json) list"

definition set_rate_limiting :: "bool \<Rightarrow> int \<Rightarrow> world \<Rightarrow> world" where
  "set_rate_limiting rate_limit min_wait w =
     w\<lparr>RATE_LIMIT := rate_limit,
       RATE_LIMIT_MIN_WAIT := (if \<not> rate_limit then None else Some min_wait),
       RATE_LIMIT_LAST_CALL := None\<rparr>"

text \<open>The default of \<^verbatim>\<open>min_wait\<close>: \<^verbatim>\<open>timedelta(milliseconds=50)\<close>.\<close>

definition default_min_wait :: int where
  "default_min_wait = 50000"

section \<open>The request gateway\<close>

text \<open>
  \<^verbatim>\<open>API_URL.format(**params)\<close>: the fields \<^verbatim>\<open>lang\<close>, \<^verbatim>\<open>sub_wikia\<close> and \<^verbatim>\<open>action\<close> are
  looked up in that order, and the first one missing raises \<^verbatim>\<open>KeyError\<close>.
\<close>

definition format_field :: "(string \<times> json) list \<Rightarrow> string \<Rightarrow> pyerror + string" where
  "format_field params k =
     (case map_of params k of None \<Rightarrow> Inl (KeyError k) | Some v \<Rightarrow> py_str v)"

definition format_API_URL :: "(string \<times> json) list \<Rightarrow> pyerror + string" where
  "format_API_URL params =
     ebind (format_field params ''lang'') (\<lambda>lang.
     ebind (format_field params ''sub_wikia'') (\<lambda>sub_wikia.
     ebind (format_field params ''action'') (\<lambda>action.
       Inr (''http://'' @ lang @ sub_wikia @ ''.wikia.com/api/v1/'' @ action))))"

text \<open>
  \<^verbatim>\<open>int(wait_time.total_seconds())\<close>: whole seconds, rounded towards zero.
  \<^verbatim>\<open>total_seconds()\<close> is a float; below \<^verbatim>\<open>2**34\<close> seconds its rounding never reaches
  the next whole second, and the result is the integer quotient. Longer waits are not
  modelled.
\<close>

definition int_total_seconds :: "int \<Rightarrow> pyerror + int" where
  "int_total_seconds us =
     (if \<bar>us\<bar> < 17179869184 * 1000000 then
        Inr (if us < 0 then - ((- us) div 1000000) else us div 1000000)
      else Inl (NotModelled ''float rounding of total_seconds''))"

text \<open>\<^verbatim>\<open>time.sleep(secs)\<close>: refuses a negative length, otherwise the clock moves on.\<close>

definition sleep :: "int \<Rightarrow> world \<Rightarrow> pyerror + world" where
  "sleep secs w =
     (if secs < 0 then Inl (ValueError ''sleep length must be non-negative'')
      else Inr (w\<lparr>clock := clock w + secs * 1000000, slept := slept w @ [secs]\<rparr>))"

text \<open>The rate-limit gate: lines 563 to 570 of \<^verbatim>\<open>_wiki_request\<close>.\<close>

definition rate_limit_gate :: "world \<Rightarrow> pyerror + world" where
  "rate_limit_gate w =
     (if RATE_LIMIT w then
        (case RATE_LIMIT_LAST_CALL w of
           None \<Rightarrow> Inr w
         | Some last_call \<Rightarrow>
             (case RATE_LIMIT_MIN_WAIT w of
                None \<Rightarrow> Inl TypeError
              | Some min_wait \<Rightarrow>
                  if last_call + min_wait > clock w then
                    (let wait_time = (last_call + min_wait) - clock w
                     in ebind (int_total_seconds wait_time) (\<lambda>secs. sleep secs w))
                  else Inr w))
      else Inr w)"

text \<open>
  A state in which the gate lets a request through without an error: rate limiting is
  off, or an interval is set that is short enough for the wait to be modelled and the
  last call is not in the future.
\<close>

definition gate_ready :: "world \<Rightarrow> bool" where
  "gate_ready w =
     (\<not> RATE_LIMIT w \<or>
      (case RATE_LIMIT_MIN_WAIT w of
         None \<Rightarrow> False
       | Some min_wait \<Rightarrow>
           min_wait < 17179869184 * 1000000 \<and>
           (case RATE_LIMIT_LAST_CALL w of None \<Rightarrow> True | Some last_call \<Rightarrow> last_call \<le> clock w)))"

text \<open>
  The error envelope: lines 586 to 591. \<^verbatim>\<open>query\<close> is no name of the function or of the
  module, so building the timeout error fails on evaluating its argument.
\<close>

definition unpack3 :: "json list \<Rightarrow> pyerror + (json \<times> json \<times> json)" where
  "unpack3 vs =
     (case vs of
        [a, b, c] \<Rightarrow> Inr (a, b, c)
      | _ \<Rightarrow> Inl (ValueError ''unpack''))"

definition check_exception :: "json \<Rightarrow> pyerror + json" where
  "check_exception r =
     ebind (py_contains ''exception'' r) (\<lambda>has_exception.
       if has_exception then
         ebind (py_getitem r ''exception'') (\<lambda>envelope.
         ebind (py_values envelope) (\<lambda>vs.
         ebind (unpack3 vs) (\<lambda>(message, error_code, details).
           if error_code = JInt 408 then Inl (NameError ''query'')
           else Inl (WikiaError (Fmt ''Error ({}) {}: {} '' [error_code, message, details])))))
       else Inr r)"

text \<open>
  Decoding the body: lines 577 to 584. When \<^verbatim>\<open>r.json()\<close> raises \<^verbatim>\<open>ValueError\<close> the handler
  builds a \<^verbatim>\<open>WikiaError\<close> and asks it for \<^verbatim>\<open>.format\<close> before raising, an attribute no
  exception has.
\<close>

definition decode_body :: "http_body \<Rightarrow> pyerror + json" where
  "decode_body body =
     (case body of
        NotJson \<Rightarrow> Inl (AttributeError ''format'')
      | Json r \<Rightarrow> Inr r)"

text \<open>
  \<^verbatim>\<open>requests.get\<close>: one round trip, answered by the head of \<^verbatim>\<open>pending\<close>.
\<close>

definition requests_get ::
  "string \<Rightarrow> (string \<times> json) list \<Rightarrow> (string \<times> string) list \<Rightarrow> world
     \<Rightarrow> (pyerror + http_body) \<times> world" where
  "requests_get api_url params headers w =
     (case pending w of
        [] \<Rightarrow> (Inl ConnectionError, w)
      | (rtt, body) # rest \<Rightarrow>
          (Inr body,
           w\<lparr>dispatched := dispatched w @
                [\<lparr>sent_at = clock w, req_url = api_url, req_params = params,
                  req_headers = headers\<rparr>],
             clock := clock w + rtt,
             pending := rest\<rparr>))"

definition wiki_request :: "(string \<times> json) list \<Rightarrow> world \<Rightarrow> (pyerror + json) \<times> world" where
  "wiki_request params w =
     (case format_API_URL params of
        Inl e \<Rightarrow> (Inl e, w)
      | Inr api_url \<Rightarrow>
          (let params' = AList.update ''format'' (JStr ''json'') params;
               headers = [(''User-Agent'', USER_AGENT w)]
           in case rate_limit_gate w of
                Inl e \<Rightarrow> (Inl e, w)
              | Inr w1 \<Rightarrow>
                  (case requests_get api_url params' headers w1 of
                     (Inl e, w2) \<Rightarrow> (Inl e, w2)
                   | (Inr body, w2) \<Rightarrow>
                       (let w3 = (if RATE_LIMIT w2
                                  then w2\<lparr>RATE_LIMIT_LAST_CALL := Some (clock w2)\<rparr>
                                  else w2)
                        in (ebind (decode_body body) check_exception, w3)))))"

section \<open>Page resolution\<close>

text \<open>
  Python's \<^verbatim>\<open>==\<close> on decoded values: \<^verbatim>\<open>True\<close> and \<^verbatim>\<open>False\<close> are the integers 1 and 0,
  lists are compared element by element, dicts as mappings, whatever the order of
  their members.
\<close>

primrec py_eq :: "json \<Rightarrow> json \<Rightarrow> bool" where
  "py_eq JNull v = (v = JNull)"
| "py_eq (JBool b) v = (v = JBool b \<or> v = JInt (if b then 1 else 0))"
| "py_eq (JInt i) v = (v = JInt i \<or> (i = 1 \<and> v = JBool True) \<or> (i = 0 \<and> v = JBool False))"
| "py_eq (JStr s) v = (v = JStr s)"
| "py_eq (JList xs) v =
     (case v of
        JList ys \<Rightarrow> list_all2 (\<lambda>same y. same y) (map py_eq xs) ys
      | _ \<Rightarrow> False)"
| "py_eq (JDict d) v =
     (case v of
        JDict e \<Rightarrow>
          length d = length e \<and>
          list_all (\<lambda>(k, same). case map_of e k of None \<Rightarrow> False | Some y \<Rightarrow> same y)
            (map (map_prod id py_eq) d)
      | _ \<Rightarrow> False)"

text \<open>\<^verbatim>\<open>xs[i]\<close> for an integer index: a negative index counts from the end.\<close>

definition py_index :: "'a list \<Rightarrow> int \<Rightarrow> pyerror + 'a" where
  "py_index xs i =
     (let n = int (length xs); j = (if i < 0 then n + i else i)
      in if 0 \<le> j \<and> j < n then Inr (xs ! nat j) else Inl IndexError)"

text \<open>\<^verbatim>\<open>v[key]\<close> for a key that is itself a value. The keys of a decoded dict are strings.\<close>

fun py_getitem_key :: "json \<Rightarrow> json \<Rightarrow> pyerror + json" where
  "py_getitem_key (JDict d) (JStr k) = py_getitem (JDict d) k"
| "py_getitem_key (JDict d) (JList ys) = Inl TypeError"
| "py_getitem_key (JDict d) (JDict e) = Inl TypeError"
| "py_getitem_key (JDict d) key =
     (case py_str key of Inl e \<Rightarrow> Inl e | Inr s \<Rightarrow> Inl (KeyError s))"
| "py_getitem_key (JList xs) (JInt i) = py_index xs i"
| "py_getitem_key (JList xs) (JBool b) = py_index xs (if b then 1 else 0)"
| "py_getitem_key (JStr s) (JInt i) = map_sum id (\<lambda>c. JStr [c]) (py_index s i)"
| "py_getitem_key (JStr s) (JBool b) =
     map_sum id (\<lambda>c. JStr [c]) (py_index s (if b then 1 else 0))"
| "py_getitem_key v key = Inl TypeError"

text \<open>
  \<^verbatim>\<open>s.lower()\<close>; only a string has the method. A character of the model is a code
  point below 256: there \<^verbatim>\<open>lower\<close> moves the letters A to Z and the upper-case letters
  of Latin-1 (192 to 222, but the multiplication sign 215) up by 32 and leaves the rest.
\<close>

definition lower_char :: "char \<Rightarrow> char" where
  "lower_char c =
     (let n = (of_char c :: nat)
      in if (65 \<le> n \<and> n \<le> 90) \<or> (192 \<le> n \<and> n \<le> 222 \<and> n \<noteq> 215)
         then char_of (n + 32) else c)"

definition lower :: "string \<Rightarrow> string" where
  "lower s = map lower_char s"

fun py_lower :: "json \<Rightarrow> pyerror + string" where
  "py_lower (JStr s) = Inr (lower s)"
| "py_lower v = Inl (AttributeError ''lower'')"

text \<open>
  What the HTML parser hands back for one \<^verbatim>\<open>li\<close> element: its \<^verbatim>\<open>class\<close> attribute
  (empty when it has none) and the text of its first anchor, if it has one. The parser
  itself, \<^verbatim>\<open>BeautifulSoup(html).find_all('li')\<close>, is a parameter of the resolver.
\<close>

record li =
  li_class :: "string list"
  li_a :: "string option"

text \<open>
  A \<^verbatim>\<open>WikiaPage\<close> object: each attribute is absent until it is assigned.
  \<^verbatim>\<open>sections_attr\<close> is the attribute \<^verbatim>\<open>_sections\<close>.
\<close>

record WikiaPage =
  title :: "string option"
  original_title :: "string option"
  pageid :: "json option"
  sub_wikia :: "json option"
  url :: "string option"
  sections_attr :: "json list option"

definition new_object :: WikiaPage where
  "new_object =
     \<lparr>title = None, original_title = None, pageid = None, sub_wikia = None, url = None,
      sections_attr = None\<rparr>"

definition get_attr :: "'a option \<Rightarrow> string \<Rightarrow> pyerror + 'a" where
  "get_attr a name = (case a of None \<Rightarrow> Inl (AttributeError name) | Some v \<Rightarrow> Inr v)"

definition quote :: string where
  "quote = [char_of (34 :: nat)]"

definition COULD_NOT_LOCATE :: string where
  "COULD_NOT_LOCATE =
     ''Could not locate page '' @ quote @ ''{}'' @ quote @ '' in subwikia '' @ quote @ ''{}'' @ quote"

definition COULD_NOT_FIND :: string where
  "COULD_NOT_FIND =
     ''Could not find page '' @ quote @ ''{}'' @ quote @ ''of the sub-wikia {}''"

text \<open>Lines 198 to 204: which attribute the constructor sets, or its \<^verbatim>\<open>ValueError\<close>.\<close>

definition init_attrs ::
  "WikiaPage \<Rightarrow> string option \<Rightarrow> json \<Rightarrow> string \<Rightarrow> pyerror + WikiaPage" where
  "init_attrs self title_arg pageid_arg original_title_arg =
     (case title_arg of
        Some t \<Rightarrow>
          Inr (self\<lparr>title := Some t,
                    original_title :=
                      Some (if original_title_arg \<noteq> [] then original_title_arg else t)\<rparr>)
      | None \<Rightarrow>
          if pageid_arg \<noteq> JNull then Inr (self\<lparr>pageid := Some pageid_arg\<rparr>)
          else Inl (ValueError ''Either a title or a pageid must be specified''))"

text \<open>\<^verbatim>\<open>title or pageid\<close> on the constructor's arguments.\<close>

definition title_or_pageid :: "string option \<Rightarrow> json \<Rightarrow> json" where
  "title_or_pageid title_arg pageid_arg =
     (case title_arg of
        Some t \<Rightarrow> if t \<noteq> [] then JStr t else pageid_arg
      | None \<Rightarrow> pageid_arg)"

text \<open>Lines 207 to 211: an \<^verbatim>\<open>AttributeError\<close> out of \<^verbatim>\<open>__load\<close> becomes a \<^verbatim>\<open>WikiaError\<close>.\<close>

definition except_AttributeError :: "pyerror \<Rightarrow> pyerror \<Rightarrow> pyerror" where
  "except_AttributeError e handler = (case e of AttributeError a \<Rightarrow> handler | _ \<Rightarrow> e)"

text \<open>Lines 236 to 244: the parameters of the details lookup.\<close>

definition details_params :: "WikiaPage \<Rightarrow> world \<Rightarrow> pyerror + (string \<times> json) list" where
  "details_params self w =
     ebind (get_attr (sub_wikia self) ''sub_wikia'') (\<lambda>sw.
       (let query_params =
              [(''action'', JStr ''Articles/Details?/''), (''sub_wikia'', sw),
               (''lang'', JStr (LANG w))]
        in if \<not> (case pageid self of None \<Rightarrow> False | Some p \<Rightarrow> py_truthy p) then
             ebind (get_attr (title self) ''title'') (\<lambda>t.
               Inr (AList.update ''titles'' (JStr t) query_params))
           else
             ebind (get_attr (pageid self) ''pageid'') (\<lambda>p.
               Inr (AList.update ''ids'' p query_params))))"

text \<open>Lines 248 to 251: the handler of \<^verbatim>\<open>IndexError\<close> around the request.\<close>

definition except_IndexError :: "WikiaPage \<Rightarrow> pyerror \<Rightarrow> pyerror" where
  "except_IndexError self e =
     (case e of
        IndexError \<Rightarrow>
          (case ebind (get_attr (title self) ''title'') (\<lambda>t.
                  ebind (if t \<noteq> [] then Inr (JStr t) else get_attr (pageid self) ''pageid'') (\<lambda>who.
                  ebind (get_attr (sub_wikia self) ''sub_wikia'') (\<lambda>sw.
                    Inr (WikiaError (Fmt COULD_NOT_FIND [who, sw]))))) of
             Inl e' \<Rightarrow> e'
           | Inr e' \<Rightarrow> e')
      | _ \<Rightarrow> e)"

text \<open>Line 252: \<^verbatim>\<open>list(request['items'].values())[0]\<close>.\<close>

definition first_item :: "json \<Rightarrow> pyerror + json" where
  "first_item request =
     ebind (py_getitem request ''items'') (\<lambda>items.
     ebind (py_values items) (\<lambda>vs.
       case vs of [] \<Rightarrow> Inl IndexError | q # rest \<Rightarrow> Inr q))"

text \<open>Lines 236 to 253: the lookup, up to the response item and its \<^verbatim>\<open>id\<close>.\<close>

definition lookup :: "WikiaPage \<Rightarrow> world \<Rightarrow> (pyerror + json \<times> json) \<times> world" where
  "lookup self w =
     (case details_params self w of
        Inl e \<Rightarrow> (Inl e, w)
      | Inr query_params \<Rightarrow>
          (case wiki_request query_params w of
             (Inl e, w1) \<Rightarrow> (Inl (except_IndexError self e), w1)
           | (Inr request, w1) \<Rightarrow>
               (ebind (first_item request) (\<lambda>query.
                ebind (py_getitem query ''id'') (\<lambda>pageid_local.
                  Inr (query, pageid_local))), w1)))"

text \<open>Lines 258 to 261: the error of a missing page.\<close>

definition missing_error :: "WikiaPage \<Rightarrow> pyerror" where
  "missing_error self =
     (case title self of
        Some t \<Rightarrow> PageError (Some t) None
      | None \<Rightarrow>
          (case pageid self of
             Some p \<Rightarrow> PageError None (Some p)
           | None \<Rightarrow> AttributeError ''pageid''))"

text \<open>
  Lines 267 to 281: the checks of the redirect branch, up to the argument
  \<^verbatim>\<open>redirects['to']\<close> of the call that reloads the object.
\<close>

definition redirect_target :: "WikiaPage \<Rightarrow> json \<Rightarrow> pyerror + json" where
  "redirect_target self query =
     ebind (py_getitem query ''redirects'') (\<lambda>rs.
     ebind (py_first rs) (\<lambda>redirects.
     ebind (py_contains ''normalized'' query) (\<lambda>has_normalized.
     ebind (if has_normalized then
              ebind (py_getitem query ''normalized'') (\<lambda>ns.
              ebind (py_first ns) (\<lambda>normalized.
              ebind (py_getitem normalized ''from'') (\<lambda>norm_from.
              ebind (get_attr (title self) ''title'') (\<lambda>t.
                if py_eq norm_from (JStr t) then py_getitem normalized ''to''
                else Inl AssertionError))))
            else ebind (get_attr (title self) ''title'') (\<lambda>t. Inr (JStr t)))
       (\<lambda>from_title.
     ebind (py_getitem redirects ''from'') (\<lambda>redirects_from.
       if py_eq redirects_from from_title then py_getitem redirects ''to''
       else Inl AssertionError)))))"

text \<open>
  \<^verbatim>\<open>getattr(self, 'title', page['title'])\<close>: the default is evaluated before the
  attribute is looked up.
\<close>

definition title_or_page_title :: "WikiaPage \<Rightarrow> json \<Rightarrow> pyerror + json" where
  "title_or_page_title self page =
     ebind (py_getitem page ''title'') (\<lambda>page_title.
       Inr (case title self of Some t \<Rightarrow> JStr t | None \<Rightarrow> page_title))"

text \<open>Lines 300 to 302: the candidates of a disambiguation page.\<close>

definition may_refer_to :: "li list \<Rightarrow> string list" where
  "may_refer_to lis =
     (let filtered_lis = filter (\<lambda>l. \<not> py_substr ''tocsection'' (concat (li_class l))) lis
      in List.map_filter li_a filtered_lis)"

text \<open>Lines 289 to 304: the disambiguation branch.\<close>

definition disambiguation ::
  "(string \<Rightarrow> li list) \<Rightarrow> WikiaPage \<Rightarrow> json \<Rightarrow> json \<Rightarrow> world \<Rightarrow> pyerror \<times> world" where
  "disambiguation soup self page pageid_local w =
     (case (case pageid self of
              Some p \<Rightarrow> Inr (AList.update ''pageids'' p [(''lang'', JStr (LANG w))])
            | None \<Rightarrow>
                ebind (get_attr (title self) ''title'') (\<lambda>t.
                  Inr (AList.update ''titles'' (JStr t) [(''lang'', JStr (LANG w))]))) of
        Inl e \<Rightarrow> (e, w)
      | Inr query_params \<Rightarrow>
          (case wiki_request query_params w of
             (Inl e, w1) \<Rightarrow> (e, w1)
           | (Inr request, w1) \<Rightarrow>
               (case ebind (py_getitem request ''query'') (\<lambda>q.
                     ebind (py_getitem q ''pages'') (\<lambda>pages.
                     ebind (py_getitem_key pages pageid_local) (\<lambda>pg.
                     ebind (py_getitem pg ''revisions'') (\<lambda>revisions.
                     ebind (py_first revisions) (\<lambda>revision.
                     ebind (py_getitem revision ''*'') (\<lambda>html.
                       case html of
                         JStr markup \<Rightarrow>
                           ebind (title_or_page_title self page) (\<lambda>t.
                             Inr (DisambiguationError t (may_refer_to (soup markup))))
                       | _ \<Rightarrow> Inl TypeError)))))) of
                  Inl e \<Rightarrow> (e, w1)
                | Inr e \<Rightarrow> (e, w1))))"

text \<open>Lines 307 to 310: the attributes of a resolved page.\<close>

definition resolved :: "WikiaPage \<Rightarrow> json \<Rightarrow> json \<Rightarrow> string \<Rightarrow> pyerror + WikiaPage" where
  "resolved self page pageid_local lang =
     ebind (py_getitem page ''title'') (\<lambda>page_title.
     ebind (py_lower page_title) (\<lambda>t.
     ebind (get_attr (sub_wikia self) ''sub_wikia'') (\<lambda>sw.
     ebind (py_str sw) (\<lambda>sw_str.
       Inr (self\<lparr>pageid := Some pageid_local, title := Some t,
                 url := Some (''http://'' @ lang @ sw_str @ ''.wikia.com/wiki/'' @ t)\<rparr>)))))"

text \<open>
  The constructor and \<^verbatim>\<open>__load\<close>. On a redirect that is followed, \<^verbatim>\<open>__load\<close> calls
  \<^verbatim>\<open>self.__init__(redirects['to'], redirect=redirect, preload=preload)\<close>: the target is
  the first positional argument, which is \<^verbatim>\<open>sub_wikia\<close>, and \<^verbatim>\<open>title\<close>, \<^verbatim>\<open>pageid\<close> and
  \<^verbatim>\<open>original_title\<close> take their defaults. The facets that \<^verbatim>\<open>preload\<close> fetches are not
  modelled.
\<close>

function init ::
  "(string \<Rightarrow> li list) \<Rightarrow> WikiaPage \<Rightarrow> json \<Rightarrow> string option \<Rightarrow> json \<Rightarrow> bool \<Rightarrow> bool \<Rightarrow> string
     \<Rightarrow> world \<Rightarrow> (pyerror + WikiaPage) \<times> world"
  and load ::
  "(string \<Rightarrow> li list) \<Rightarrow> WikiaPage \<Rightarrow> bool \<Rightarrow> bool \<Rightarrow> world \<Rightarrow> (pyerror + WikiaPage) \<times> world"
where
  "init soup self sub_wikia_arg title_arg pageid_arg redirect preload original_title_arg w =
     (case init_attrs self title_arg pageid_arg original_title_arg of
        Inl e \<Rightarrow> (Inl e, w)
      | Inr self1 \<Rightarrow>
          (case load soup (self1\<lparr>sub_wikia := Some sub_wikia_arg\<rparr>) redirect preload w of
             (Inl e, w1) \<Rightarrow>
               (Inl (except_AttributeError e
                  (WikiaError (Fmt COULD_NOT_LOCATE
                     [title_or_pageid title_arg pageid_arg, sub_wikia_arg]))), w1)
           | (Inr self2, w1) \<Rightarrow>
               if preload then (Inl (NotModelled ''preload''), w1) else (Inr self2, w1)))"
| "load soup self redirect preload w =
     (case lookup self w of
        (Inl e, w1) \<Rightarrow> (Inl e, w1)
      | (Inr (query, pageid_local), w1) \<Rightarrow>
          (case py_contains ''missing'' query of
             Inl e \<Rightarrow> (Inl e, w1)
           | Inr True \<Rightarrow> (Inl (missing_error self), w1)
           | Inr False \<Rightarrow>
               (case py_contains ''redirects'' query of
                  Inl e \<Rightarrow> (Inl e, w1)
                | Inr True \<Rightarrow>
                    if redirect then
                      (case redirect_target self query of
                         Inl e \<Rightarrow> (Inl e, w1)
                       | Inr target \<Rightarrow> init soup self target None JNull redirect preload [] w1)
                    else
                      (case title_or_page_title self query of
                         Inl e \<Rightarrow> (Inl e, w1)
                       | Inr t \<Rightarrow> (Inl (RedirectError t), w1))
                | Inr False \<Rightarrow>
                    (case py_contains ''pageprops'' query of
                       Inl e \<Rightarrow> (Inl e, w1)
                     | Inr True \<Rightarrow>
                         (case disambiguation soup self query pageid_local w1 of
                            (e, w2) \<Rightarrow> (Inl e, w2))
                     | Inr False \<Rightarrow> (resolved self query pageid_local (LANG w), w1)))))"
  by pat_completeness auto
termination
  by (relation "measure (\<lambda>x. case x of
         Inl (soup, self, sub_wikia_arg, title_arg, pageid_arg, rest) \<Rightarrow>
           (if title_arg = None \<and> pageid_arg = JNull then 0 else 2)
       | Inr y \<Rightarrow> 1)")
     (auto simp: init_attrs_def split: option.splits if_splits)

text \<open>\<^verbatim>\<open>page(sub_wikia, title, pageid, redirect, preload)\<close>: lines 182 to 187.\<close>

definition page ::
  "(string \<Rightarrow> li list) \<Rightarrow> json \<Rightarrow> string option \<Rightarrow> json \<Rightarrow> bool \<Rightarrow> bool \<Rightarrow> world
     \<Rightarrow> (pyerror + WikiaPage) \<times> world" where
  "page soup sub_wikia_arg title_arg pageid_arg redirect preload w =
     (case title_arg of
        Some t \<Rightarrow> init soup new_object sub_wikia_arg (Some t) JNull redirect preload [] w
      | None \<Rightarrow>
          if pageid_arg \<noteq> JNull then
            init soup new_object sub_wikia_arg None pageid_arg True preload [] w
          else (Inl (ValueError ''Either a title or a pageid must be specified''), w))"

section \<open>Continued queries\<close>

text \<open>How a generator ends: it is exhausted, or an exception leaves it.\<close>

datatype outcome = Finished | Raised pyerror

text \<open>\<^verbatim>\<open>d.update(other)\<close> for two dicts: a key keeps its place, a new key goes last.\<close>

definition dict_update :: "(string \<times> json) list \<Rightarrow> (string \<times> json) list \<Rightarrow> (string \<times> json) list" where
  "dict_update d other = fold (\<lambda>kv. AList.update (fst kv) (snd kv)) other d"

text \<open>Lines 344 to 348: the property \<^verbatim>\<open>__title_query_param\<close>.\<close>

definition title_query_param :: "WikiaPage \<Rightarrow> pyerror + (string \<times> json) list" where
  "title_query_param self =
     (case title self of
        Some t \<Rightarrow> Inr [(''titles'', JStr t)]
      | None \<Rightarrow> ebind (get_attr (pageid self) ''pageid'') (\<lambda>p. Inr [(''pageids'', p)]))"

text \<open>
  Lines 322 and 323: \<^verbatim>\<open>params = query_params.copy(); params.update(last_continue)\<close>.
  Updating from a non-empty sequence of pairs is not modelled.
\<close>

fun merge_continue :: "(string \<times> json) list \<Rightarrow> json \<Rightarrow> pyerror + (string \<times> json) list" where
  "merge_continue query_params (JDict d) = Inr (dict_update query_params d)"
| "merge_continue query_params JNull = Inl TypeError"
| "merge_continue query_params (JBool b) = Inl TypeError"
| "merge_continue query_params (JInt i) = Inl TypeError"
| "merge_continue query_params (JStr []) = Inr query_params"
| "merge_continue query_params (JList []) = Inr query_params"
| "merge_continue query_params v = Inl (NotModelled ''dict.update from a sequence'')"

text \<open>Lines 330 to 336: the items one response contributes.\<close>

definition batch :: "WikiaPage \<Rightarrow> (string \<times> json) list \<Rightarrow> json \<Rightarrow> json \<Rightarrow> pyerror + json list" where
  "batch self query_params prop request =
     ebind (py_getitem request ''query'') (\<lambda>q.
     ebind (py_getitem q ''pages'') (\<lambda>pages.
       if map_of query_params ''generator'' \<noteq> None then py_values pages
       else
         ebind (get_attr (pageid self) ''pageid'') (\<lambda>p.
         ebind (py_getitem_key pages p) (\<lambda>pg.
         ebind (py_getitem_key pg prop) py_iter))))"

lemma rate_limit_gate_pending:
  "rate_limit_gate w = Inr w1 \<Longrightarrow> pending w1 = pending w"
  by (auto simp: rate_limit_gate_def sleep_def Let_def ebind_def
        split: if_splits option.splits sum.splits)

lemma wiki_request_consumes:
  "wiki_request params w = (Inr r, w1) \<Longrightarrow> length (pending w1) < length (pending w)"
  by (auto simp: wiki_request_def requests_get_def Let_def
        dest!: rate_limit_gate_pending split: sum.splits list.splits prod.splits if_splits)

text \<open>
  Lines 321 to 341: the loop of \<^verbatim>\<open>__continued_query\<close>, drained to its end. The result is
  the items yielded, in order, how the generator ended, and the world it leaves.
\<close>

function continued_loop ::
  "WikiaPage \<Rightarrow> (string \<times> json) list \<Rightarrow> json \<Rightarrow> json \<Rightarrow> world \<Rightarrow> json list \<times> outcome \<times> world" where
  "continued_loop self query_params prop last_continue w =
     (case merge_continue query_params last_continue of
        Inl e \<Rightarrow> ([], Raised e, w)
      | Inr params \<Rightarrow>
          (case wiki_request params w of
             (Inl e, w1) \<Rightarrow> ([], Raised e, w1)
           | (Inr request, w1) \<Rightarrow>
               (case py_contains ''query'' request of
                  Inl e \<Rightarrow> ([], Raised e, w1)
                | Inr False \<Rightarrow> ([], Finished, w1)
                | Inr True \<Rightarrow>
                    (case batch self query_params prop request of
                       Inl e \<Rightarrow> ([], Raised e, w1)
                     | Inr items \<Rightarrow>
                         (case py_contains ''continue'' request of
                            Inl e \<Rightarrow> (items, Raised e, w1)
                          | Inr False \<Rightarrow> (items, Finished, w1)
                          | Inr True \<Rightarrow>
                              (case py_getitem request ''continue'' of
                                 Inl e \<Rightarrow> (items, Raised e, w1)
                               | Inr token \<Rightarrow>
                                   (case continued_loop self query_params prop token w1 of
                                      (later, out, w2) \<Rightarrow> (items @ later, out, w2))))))))"
  by pat_completeness auto
termination
  by (relation "measure (\<lambda>(self, query_params, prop, last_continue, w). length (pending w))")
     (auto dest: wiki_request_consumes [OF sym])

text \<open>Lines 316 to 319, then the loop.\<close>

definition continued_query ::
  "WikiaPage \<Rightarrow> (string \<times> json) list \<Rightarrow> world \<Rightarrow> json list \<times> outcome \<times> world" where
  "continued_query self query_params w =
     (case title_query_param self of
        Inl e \<Rightarrow> ([], Raised e, w)
      | Inr tq \<Rightarrow>
          (let query_params' = dict_update query_params tq;
               prop = (case map_of query_params' ''prop'' of None \<Rightarrow> JNull | Some v \<Rightarrow> v)
           in continued_loop self query_params' prop (JDict []) w))"

text \<open>
  What the specification says a drained query yields (section 4.3), response by
  response. The results container of a response is the mapping of pages under its
  \<^verbatim>\<open>query\<close> member. In generator mode every entry of the container is one item; in
  non-generator mode the items are the sub-collection that belongs to the targeted
  page: the member named by \<^verbatim>\<open>prop\<close> of the entry filed under the page id.
\<close>

definition spec_pages :: "json \<Rightarrow> (string \<times> json) list option" where
  "spec_pages r =
     (case r of
        JDict d \<Rightarrow>
          (case map_of d ''query'' of
             Some (JDict q) \<Rightarrow> (case map_of q ''pages'' of Some (JDict ps) \<Rightarrow> Some ps | _ \<Rightarrow> None)
           | _ \<Rightarrow> None)
      | _ \<Rightarrow> None)"

definition spec_items :: "bool \<Rightarrow> json \<Rightarrow> json \<Rightarrow> json \<Rightarrow> json list" where
  "spec_items generator page_id prop r =
     (case spec_pages r of
        None \<Rightarrow> []
      | Some ps \<Rightarrow>
          if generator then map snd ps
          else
            (case (py_str page_id, prop) of
               (Inr k, JStr p) \<Rightarrow>
                 (case map_of ps k of
                    Some (JDict entry) \<Rightarrow>
                      (case map_of entry p of Some (JList xs) \<Rightarrow> xs | _ \<Rightarrow> [])
                  | _ \<Rightarrow> [])
             | _ \<Rightarrow> []))"

text \<open>
  The continuation token of a response, when it is an object, and a token that leaves
  the three fields of the URL alone.
\<close>

definition continuation :: "json \<Rightarrow> (string \<times> json) list option" where
  "continuation r =
     (case py_contains ''continue'' r of
        Inr True \<Rightarrow> (case py_getitem r ''continue'' of Inr (JDict tok) \<Rightarrow> Some tok | _ \<Rightarrow> None)
      | _ \<Rightarrow> None)"

definition url_fields_free :: "(string \<times> json) list \<Rightarrow> bool" where
  "url_fields_free tok =
     (map_of tok ''lang'' = None \<and> map_of tok ''sub_wikia'' = None \<and> map_of tok ''action'' = None)"

text \<open>
  A response that is followed by another: no error envelope, a results container and
  a continuation token. The last response: no error envelope, and either a results
  container and no continuation token, or no \<^verbatim>\<open>query\<close> member at all.
\<close>

definition continued_answer :: "json \<Rightarrow> bool" where
  "continued_answer r =
     (py_contains ''exception'' r = Inr False \<and> spec_pages r \<noteq> None \<and>
      (case continuation r of None \<Rightarrow> False | Some tok \<Rightarrow> url_fields_free tok))"

definition last_answer :: "json \<Rightarrow> bool" where
  "last_answer r =
     (py_contains ''exception'' r = Inr False \<and>
      ((spec_pages r \<noteq> None \<and> py_contains ''continue'' r = Inr False)
       \<or> py_contains ''query'' r = Inr False))"

section \<open>Sections\<close>

text \<open>A list comprehension whose element expression may raise.\<close>

fun emap :: "('a \<Rightarrow> pyerror + 'b) \<Rightarrow> 'a list \<Rightarrow> pyerror + 'b list" where
  "emap f [] = Inr []"
| "emap f (x # xs) = ebind (f x) (\<lambda>y. ebind (emap f xs) (\<lambda>ys. Inr (y # ys)))"

text \<open>The parameters of the \<^verbatim>\<open>Articles/AsSimpleJson\<close> request: lines 476 to 481, 502 to 507.\<close>

definition simple_json_params :: "WikiaPage \<Rightarrow> world \<Rightarrow> pyerror + (string \<times> json) list" where
  "simple_json_params self w =
     ebind (get_attr (pageid self) ''pageid'') (\<lambda>p.
     ebind (get_attr (sub_wikia self) ''sub_wikia'') (\<lambda>sw.
       Inr [(''action'', JStr ''Articles/AsSimpleJson?/''), (''id'', p), (''sub_wikia'', sw),
            (''lang'', JStr (LANG w))]))"

text \<open>
  Lines 470 to 486: the property \<^verbatim>\<open>sections\<close>. The list is fetched unless the object
  already holds a non-empty one.
\<close>

definition sections :: "WikiaPage \<Rightarrow> world \<Rightarrow> (pyerror + json list \<times> WikiaPage) \<times> world" where
  "sections self w =
     (if (case sections_attr self of None \<Rightarrow> True | Some ts \<Rightarrow> ts = []) then
        (case simple_json_params self w of
           Inl e \<Rightarrow> (Inl e, w)
         | Inr query_params \<Rightarrow>
             (case wiki_request query_params w of
                (Inl e, w1) \<Rightarrow> (Inl e, w1)
              | (Inr request, w1) \<Rightarrow>
                  (ebind (py_getitem request ''sections'') (\<lambda>ss.
                   ebind (py_iter ss) (\<lambda>sl.
                   ebind (emap (\<lambda>s. py_getitem s ''title'') sl) (\<lambda>ts.
                     Inr (ts, self\<lparr>sections_attr := Some ts\<rparr>)))), w1)))
      else (Inr (the (sections_attr self), self), w))"

text \<open>
  Lines 510 to 513: the generator handed to \<^verbatim>\<open>join\<close>. The outer loop keeps a section
  when \<^verbatim>\<open>section == section_title\<close>, the inner one a segment when its type is
  \<^verbatim>\<open>paragraph\<close>.
\<close>

fun paragraphs :: "json list \<Rightarrow> pyerror + json list" where
  "paragraphs [] = Inr []"
| "paragraphs (segment # segments) =
     ebind (py_getitem segment ''type'') (\<lambda>ty.
       if py_eq ty (JStr ''paragraph'') then
         ebind (py_getitem segment ''text'') (\<lambda>t.
         ebind (paragraphs segments) (\<lambda>ts. Inr (t # ts)))
       else paragraphs segments)"

fun section_segments :: "string \<Rightarrow> json list \<Rightarrow> pyerror + json list" where
  "section_segments section_title [] = Inr []"
| "section_segments section_title (s # ss) =
     (if py_eq s (JStr section_title) then
        ebind (py_getitem s ''content'') (\<lambda>c.
        ebind (py_iter c) (\<lambda>segments.
        ebind (paragraphs segments) (\<lambda>xs.
        ebind (section_segments section_title ss) (\<lambda>ys. Inr (xs @ ys)))))
      else section_segments section_title ss)"

text \<open>\<^verbatim>\<open>sep.join(items)\<close>: every item has to be a string.\<close>

fun strings :: "json list \<Rightarrow> pyerror + string list" where
  "strings [] = Inr []"
| "strings (JStr s # vs) = ebind (strings vs) (\<lambda>ss. Inr (s # ss))"
| "strings (v # vs) = Inl TypeError"

fun intercalate :: "string \<Rightarrow> string list \<Rightarrow> string" where
  "intercalate sep [] = []"
| "intercalate sep [s] = s"
| "intercalate sep (s # t # ss) = s @ sep @ intercalate sep (t # ss)"

definition py_join :: "string \<Rightarrow> json list \<Rightarrow> pyerror + string" where
  "py_join sep items = ebind (strings items) (\<lambda>ss. Inr (intercalate sep ss))"

definition newline :: string where
  "newline = [char_of (10 :: nat)]"

text \<open>
  Lines 488 to 514: \<^verbatim>\<open>section(section_title)\<close>. The result is \<^verbatim>\<open>None\<close> or a string,
  with the object (its section list may have been stored) and the world.
\<close>

definition section_of_page ::
  "WikiaPage \<Rightarrow> string \<Rightarrow> world \<Rightarrow> (pyerror + string option \<times> WikiaPage) \<times> world" where
  "section_of_page self section_title w =
     (case sections self w of
        (Inl e, w1) \<Rightarrow> (Inl e, w1)
      | (Inr (ts, self1), w1) \<Rightarrow>
          if \<not> list_ex (\<lambda>t. py_eq t (JStr section_title)) ts then (Inr (None, self1), w1)
          else
            (case simple_json_params self1 w1 of
               Inl e \<Rightarrow> (Inl e, w1)
             | Inr query_params \<Rightarrow>
                 (case wiki_request query_params w1 of
                    (Inl e, w2) \<Rightarrow> (Inl e, w2)
                  | (Inr request, w2) \<Rightarrow>
                      (ebind (py_getitem request ''sections'') (\<lambda>ss.
                       ebind (py_iter ss) (\<lambda>sl.
                       ebind (section_segments section_title sl) (\<lambda>texts.
                       ebind (py_join newline texts) (\<lambda>joined.
                         Inr (Some joined, self1))))), w2))))"

section \<open>Equality of pages\<close>

text \<open>
  The other side of \<^verbatim>\<open>==\<close> can be any object: what matters of it is which of the
  attributes \<^verbatim>\<open>pageid\<close>, \<^verbatim>\<open>title\<close> and \<^verbatim>\<open>url\<close> it has, and their values. A value that is
  no object with attributes (a number, a string, \<^verbatim>\<open>None\<close>) has none of them.
\<close>

record pyobject =
  attr_pageid :: "json option"
  attr_title :: "json option"
  attr_url :: "json option"

definition as_object :: "WikiaPage \<Rightarrow> pyobject" where
  "as_object p =
     \<lparr>attr_pageid = pageid p, attr_title = map_option JStr (title p),
      attr_url = map_option JStr (url p)\<rparr>"

definition plain_value :: pyobject where
  "plain_value = \<lparr>attr_pageid = None, attr_title = None, attr_url = None\<rparr>"

text \<open>
  Lines 219 to 227: \<^verbatim>\<open>__eq__\<close>. The attributes are read from left to right, \<^verbatim>\<open>and\<close> stops
  at the first comparison that fails, and the bare \<^verbatim>\<open>except\<close> turns any exception into
  \<^verbatim>\<open>False\<close>.
\<close>

definition eq_attrs :: "pyobject \<Rightarrow> pyobject \<Rightarrow> pyerror + bool" where
  "eq_attrs self other =
     ebind (get_attr (attr_pageid self) ''pageid'') (\<lambda>a.
     ebind (get_attr (attr_pageid other) ''pageid'') (\<lambda>b.
       if \<not> py_eq a b then Inr False
       else
         ebind (get_attr (attr_title self) ''title'') (\<lambda>c.
         ebind (get_attr (attr_title other) ''title'') (\<lambda>d.
           if \<not> py_eq c d then Inr False
           else
             ebind (get_attr (attr_url self) ''url'') (\<lambda>e.
             ebind (get_attr (attr_url other) ''url'') (\<lambda>f.
               Inr (py_eq e f)))))))"

definition WikiaPage_eq :: "WikiaPage \<Rightarrow> pyobject \<Rightarrow> bool" where
  "WikiaPage_eq self other =
     (case eq_attrs (as_object self) other of Inl e \<Rightarrow> False | Inr b \<Rightarrow> b)"

section \<open>The result cache and the language\<close>

text \<open>
  Modelled from the spec: the decorator \<^verbatim>\<open>cache\<close> of \<^verbatim>\<open>util\<close>, which is not among the
  sources. On the first call with a given argument signature the wrapped function is
  invoked and its result stored; a later call with the same signature returns the
  stored result; \<^verbatim>\<open>clear_cache\<close> discards all stored entries of one wrapped function.
\<close>

definition clear_cache :: "cached_func \<Rightarrow> world \<Rightarrow> world" where
  "clear_cache f w = w\<lparr>cache := (cache w)(f := [])\<rparr>"

definition cached ::
  "cached_func \<Rightarrow> (world \<Rightarrow> (pyerror + json) \<times> world) \<Rightarrow> json list \<times> (string \<times> json) list
     \<Rightarrow> world \<Rightarrow> (pyerror + json) \<times> world" where
  "cached f compute key w =
     (case map_of (cache w f) key of
        Some v \<Rightarrow> (Inr v, w)
      | None \<Rightarrow>
          (case compute w of
             (Inl e, w1) \<Rightarrow> (Inl e, w1)
           | (Inr v, w1) \<Rightarrow> (Inr v, w1\<lparr>cache := (cache w1)(f := cache w1 f @ [(key, v)])\<rparr>)))"

text \<open>
  Lines 25 to 33: \<^verbatim>\<open>set_lang\<close>. The loop clears the functions of the tuple
  \<^verbatim>\<open>(search, summary)\<close>.
\<close>

definition set_lang :: "string \<Rightarrow> world \<Rightarrow> world" where
  "set_lang language w =
     fold clear_cache [Search, Summary]
       (w\<lparr>LANG := (if language \<noteq> [] then lower language @ ''.'' else [])\<rparr>)"

text \<open>Lines 516 to 537: the body of \<^verbatim>\<open>languages\<close>, the third wrapped function.\<close>

definition languages :: "world \<Rightarrow> (pyerror + json) \<times> world" where
  "languages w =
     (case wiki_request [(''meta'', JStr ''siteinfo''), (''siprop'', JStr ''languages'')] w of
        (Inl e, w1) \<Rightarrow> (Inl e, w1)
      | (Inr response, w1) \<Rightarrow>
          (ebind (py_getitem response ''query'') (\<lambda>q.
           ebind (py_getitem q ''languages'') (\<lambda>ls.
           ebind (py_iter ls) (\<lambda>langs.
           ebind (emap (\<lambda>l. ebind (py_getitem l ''code'') (\<lambda>code.
                             ebind (py_getitem l ''*'') (\<lambda>name. Inr (code, name)))) langs)
             (\<lambda>pairs.
           ebind (emap (\<lambda>cn. case fst cn of JStr c \<Rightarrow> Inr (c, snd cn)
                                | _ \<Rightarrow> Inl (NotModelled ''a key that is no string'')) pairs)
             (\<lambda>kvs. Inr (JDict (dict_update [] kvs))))))), w1))"

text \<open>Lines 36 to 45: \<^verbatim>\<open>set_user_agent\<close>.\<close>

definition set_user_agent :: "string \<Rightarrow> world \<Rightarrow> world" where
  "set_user_agent user_agent_string w = w\<lparr>USER_AGENT := user_agent_string\<rparr>"

text \<open>
  Lines 81 to 107: the body of \<^verbatim>\<open>search\<close>. The \<^verbatim>\<open>try\<close> covers the lookup of
  \<^verbatim>\<open>raw_results['items']\<close> and the start of the iteration; the titles are read when
  the list is built, outside it.
\<close>

definition except_KeyError :: "pyerror \<Rightarrow> pyerror \<Rightarrow> pyerror" where
  "except_KeyError e handler = (case e of KeyError k \<Rightarrow> handler | _ \<Rightarrow> e)"

definition search :: "json \<Rightarrow> json \<Rightarrow> json \<Rightarrow> world \<Rightarrow> (pyerror + json) \<times> world" where
  "search query sub_wikia_arg results w =
     (case wiki_request
             [(''action'', JStr ''Search/List?/''), (''sub_wikia'', sub_wikia_arg),
              (''lang'', JStr (LANG w)), (''limit'', results), (''query'', query)] w of
        (Inl e, w1) \<Rightarrow> (Inl e, w1)
      | (Inr raw_results, w1) \<Rightarrow>
          (case ebind (py_getitem raw_results ''items'') py_iter of
             Inl e \<Rightarrow>
               (Inl (except_KeyError e
                  (WikiaError (Fmt COULD_NOT_LOCATE [query, sub_wikia_arg]))), w1)
           | Inr ds \<Rightarrow>
               (ebind (emap (\<lambda>d. py_getitem d ''title'') ds) (\<lambda>ts. Inr (JList ts)), w1)))"

text \<open>Lines 135 to 166: the body of \<^verbatim>\<open>summary\<close>.\<close>

definition summary ::
  "(string \<Rightarrow> li list) \<Rightarrow> string option \<Rightarrow> json \<Rightarrow> json \<Rightarrow> bool \<Rightarrow> world
     \<Rightarrow> (pyerror + json) \<times> world" where
  "summary soup title_arg sub_wikia_arg chars redirect w =
     (case page soup sub_wikia_arg title_arg JNull redirect False w of
        (Inl e, w1) \<Rightarrow> (Inl e, w1)
      | (Inr page_info, w1) \<Rightarrow>
          (case ebind (get_attr (title page_info) ''title'') (\<lambda>t.
                ebind (get_attr (pageid page_info) ''pageid'') (\<lambda>p. Inr (t, p))) of
             Inl e \<Rightarrow> (Inl e, w1)
           | Inr (t, p) \<Rightarrow>
               (case wiki_request
                       [(''action'', JStr ''Articles/Details?/''), (''sub_wikia'', sub_wikia_arg),
                        (''titles'', JStr t), (''ids'', p), (''abstract'', chars),
                        (''lang'', JStr (LANG w1))] w1 of
                  (Inl e, w2) \<Rightarrow> (Inl e, w2)
                | (Inr request, w2) \<Rightarrow>
                    (ebind (py_getitem request ''items'') (\<lambda>items.
                     ebind (py_str p) (\<lambda>k.
                     ebind (py_getitem items k) (\<lambda>item.
                       py_getitem item ''abstract''))), w2))))"

text \<open>
  The states the module can be in. A process starts with nothing stored in any cache
  (its other globals and what the server will answer can be anything); from there it
  calls the setters, resolves pages, sends requests (as every facet loader does), calls
  the three wrapped functions through their caches, and clears a cache.
\<close>

inductive reachable :: "world \<Rightarrow> bool" where
  start: "cache w = (\<lambda>f. []) \<Longrightarrow> reachable w"
| lang: "reachable w \<Longrightarrow> reachable (set_lang language w)"
| user_agent: "reachable w \<Longrightarrow> reachable (set_user_agent user_agent_string w)"
| rate_limiting: "reachable w \<Longrightarrow> reachable (set_rate_limiting rate_limit min_wait w)"
| request: "reachable w \<Longrightarrow> reachable (snd (wiki_request params w))"
| resolve: "reachable w \<Longrightarrow>
     reachable (snd (page soup sub_wikia_arg title_arg pageid_arg redirect preload w))"
| call_search: "reachable w \<Longrightarrow>
     reachable (snd (cached Search (search query sub_wikia_arg results) key w))"
| call_summary: "reachable w \<Longrightarrow>
     reachable (snd (cached Summary (summary soup title_arg sub_wikia_arg chars redirect) key w))"
| call_languages: "reachable w \<Longrightarrow> reachable (snd (cached Languages languages key w))"
| clear: "reachable w \<Longrightarrow> reachable (clear_cache f w)"

section \<open>Example inputs\<close>

definition example_world :: world where
  "example_world =
     \<lparr>LANG = ''en.'', RATE_LIMIT = False, RATE_LIMIT_MIN_WAIT = None,
      RATE_LIMIT_LAST_CALL = None, USER_AGENT = ''wikia'', clock = 0, pending = [],
      dispatched = [], slept = [], cache = (\<lambda>f. [])\<rparr>"

definition one_answer :: "json \<Rightarrow> world" where
  "one_answer r = example_world\<lparr>pending := [(20000, Json r)]\<rparr>"

definition details_example :: "(string \<times> json) list" where
  "details_example =
     [(''action'', JStr ''Articles/Details?/''), (''sub_wikia'', JStr ''runescape''),
      (''lang'', JStr ''en.''), (''titles'', JStr ''Zamorak'')]"

definition timeout_envelope :: "(string \<times> json) list" where
  "timeout_envelope =
     [(''exception'',
       JDict [(''message'', JStr ''Request Timeout''), (''code'', JInt 408),
              (''details'', JStr ''upstream'')])]"

definition ok_body :: json where
  "ok_body = JDict [(''items'', JDict [])]"

text \<open>
  Rate limiting switched on with the default interval of 50 ms, and two answers waiting,
  each 20 ms away.
\<close>

definition two_requests_world :: world where
  "two_requests_world =
     set_rate_limiting True default_min_wait
       (example_world\<lparr>pending := [(20000, Json ok_body), (20000, Json ok_body)]\<rparr>)"

definition no_li :: "string \<Rightarrow> li list" where
  "no_li markup = []"

text \<open>The object as the constructor leaves it before \<^verbatim>\<open>__load\<close>, for a title.\<close>

definition fresh_page :: "string \<Rightarrow> WikiaPage" where
  "fresh_page t =
     new_object\<lparr>title := Some t, original_title := Some t, sub_wikia := Some (JStr ''runescape'')\<rparr>"

definition items_response :: "json \<Rightarrow> json" where
  "items_response item = JDict [(''items'', JDict [(''1'', item)])]"

definition redirect_item :: json where
  "redirect_item =
     JDict [(''id'', JInt 123), (''title'', JStr ''Zammy''),
            (''redirects'', JList [JDict [(''from'', JStr ''Zammy''), (''to'', JStr ''Zamorak'')]])]"

definition missing_item :: json where
  "missing_item = JDict [(''id'', JInt 0), (''title'', JStr ''Zzz''), (''missing'', JStr [])]"

definition missing_item_without_id :: json where
  "missing_item_without_id = JDict [(''title'', JStr ''Zzz''), (''missing'', JStr [])]"

definition disambiguation_item :: json where
  "disambiguation_item =
     JDict [(''id'', JInt 7), (''title'', JStr ''Mercury''),
            (''pageprops'', JDict [(''disambiguation'', JStr [])])]"

text \<open>A resolved page, and a query in generator mode answered in pages.\<close>

definition zamorak :: WikiaPage where
  "zamorak =
     \<lparr>title = Some ''zamorak'', original_title = Some ''Zamorak'', pageid = Some (JInt 42),
      sub_wikia = Some (JStr ''runescape''),
      url = Some ''http://en.runescape.wikia.com/wiki/zamorak'', sections_attr = None\<rparr>"

definition generator_params :: "(string \<times> json) list" where
  "generator_params =
     [(''action'', JStr ''Articles/List?/''), (''sub_wikia'', JStr ''runescape''),
      (''lang'', JStr ''en.''), (''generator'', JStr ''links'')]"

definition page1 :: json where
  "page1 = JDict [(''query'', JDict [(''pages'', JDict [(''1'', JStr ''a'')])]),
                  (''continue'', JDict [(''gcontinue'', JStr ''x'')])]"

definition page2 :: json where
  "page2 = JDict [(''query'', JDict [(''pages'', JDict [(''2'', JStr ''b'')])]),
                  (''continue'', JDict [(''gcontinue'', JStr ''y'')])]"

definition page3 :: json where
  "page3 = JDict [(''query'', JDict [(''pages'', JDict [(''3'', JStr ''c'')])])]"

definition no_container :: json where
  "no_container = JDict [(''batchcomplete'', JStr [])]"

text \<open>A query for the links of the page, not in generator mode, and its answer.\<close>

definition links_params :: "(string \<times> json) list" where
  "links_params =
     [(''action'', JStr ''Articles/List?/''), (''sub_wikia'', JStr ''runescape''),
      (''lang'', JStr ''en.''), (''prop'', JStr ''links'')]"

definition links_page :: json where
  "links_page =
     JDict [(''query'',
             JDict [(''pages'',
                     JDict [(''42'', JDict [(''links'', JList [JStr ''a'', JStr ''b''])])])])]"

definition answers :: "json list \<Rightarrow> world" where
  "answers rs = example_world\<lparr>pending := map (\<lambda>r. (20000, Json r)) rs\<rparr>"

text \<open>The simplified article of a page with one section.\<close>

definition history_sections :: json where
  "history_sections =
     JDict [(''sections'',
             JList [JDict [(''title'', JStr ''History''), (''level'', JInt 1),
                           (''content'',
                            JList [JDict [(''type'', JStr ''paragraph''),
                                          (''text'', JStr ''abc'')]])]])]"

text \<open>A search that has been answered, so that its result is stored.\<close>

definition search_response :: json where
  "search_response = JDict [(''items'', JList [JDict [(''title'', JStr ''Zamorak'')]])]"

definition search_key :: "json list \<times> (string \<times> json) list" where
  "search_key = ([JStr ''zam'', JStr ''runescape''], [])"

definition searched_world :: world where
  "searched_world =
     snd (cached Search (search (JStr ''zam'') (JStr ''runescape'') (JInt 10)) search_key
            (one_answer search_response))"

section \<open>The gateway: what a request returns\<close>

declare init.simps [simp del] load.simps [simp del] continued_loop.simps [simp del]

lemma ebind_simps [simp]:
  "ebind (Inl e) f = Inl e"
  "ebind (Inr x) f = f x"
  by (simp_all add: ebind_def)

lemma py_eq_JStr [simp]: "py_eq v (JStr s) = (v = JStr s)"
  by (cases v) auto

lemma fst_eqD: "fst p = a \<Longrightarrow> \<exists>b. p = (a, b)"
  by (cases p) simp

lemma wiki_request_answer:
  assumes "format_API_URL params = Inr api_url"
    and "rate_limit_gate w = Inr w1"
    and "pending w = (rtt, body) # rest"
  shows "fst (wiki_request params w) = ebind (decode_body body) check_exception"
proof -
  have "pending w1 = (rtt, body) # rest"
    using assms(2,3) by (simp add: rate_limit_gate_pending)
  then show ?thesis
    using assms(1,2) by (simp add: wiki_request_def requests_get_def Let_def)
qed

lemma format_details_example:
  "format_API_URL details_example =
     Inr ''http://en.runescape.wikia.com/api/v1/Articles/Details?/''"
  by (simp add: format_API_URL_def format_field_def details_example_def)

lemma gate_example:
  "rate_limit_gate (example_world\<lparr>pending := p\<rparr>) = Inr (example_world\<lparr>pending := p\<rparr>)"
  by (simp add: rate_limit_gate_def example_world_def)

lemma fst_wiki_request_one_answer:
  assumes "format_API_URL params = Inr api_url"
  shows "fst (wiki_request params (one_answer r)) = check_exception r"
  using wiki_request_answer [OF assms gate_example, of "[(20000, Json r)]" 20000 "Json r" "[]"]
  by (simp add: one_answer_def decode_body_def)

text \<open>
  C7. A request whose response body does not decode as JSON does not end in a
  \<^verbatim>\<open>WikiaError\<close> that carries the URL and the parameters: the handler asks the
  freshly built \<^verbatim>\<open>WikiaError\<close> for \<^verbatim>\<open>.format\<close>, and the request ends in the
  \<^verbatim>\<open>AttributeError\<close> of that lookup.
\<close>

theorem malformed_body_attribute_error:
  assumes "format_API_URL params = Inr api_url"
    and "rate_limit_gate w = Inr w1"
    and "pending w = (rtt, NotJson) # rest"
  shows "fst (wiki_request params w) = Inl (AttributeError ''format'')"
  using wiki_request_answer [OF assms] by (simp add: decode_body_def)

theorem malformed_body_attribute_error_witness:
  "fst (wiki_request details_example (example_world\<lparr>pending := [(20000, NotJson)]\<rparr>))
     = Inl (AttributeError ''format'')"
  by (rule malformed_body_attribute_error [OF format_details_example gate_example])
     (simp add: example_world_def)

text \<open>
  C8. A decoded response with an error envelope of three fields, message, code and
  details in this order: for any code other than 408 the request fails with a
  \<^verbatim>\<open>WikiaError\<close> whose message is built from the code, the message and the details as
  they came; for the code 408 it does not fail with \<^verbatim>\<open>HTTPTimeoutError\<close> but with the
  \<^verbatim>\<open>NameError\<close> of the undefined name \<^verbatim>\<open>query\<close>.
\<close>

theorem error_envelope:
  assumes "format_API_URL params = Inr api_url"
    and "rate_limit_gate w = Inr w1"
    and "pending w = (rtt, Json (JDict d)) # rest"
    and "map_of d ''exception'' = Some (JDict [(k1, message), (k2, error_code), (k3, details)])"
  shows "fst (wiki_request params w) =
           (if error_code = JInt 408 then Inl (NameError ''query'')
            else Inl (WikiaError (Fmt ''Error ({}) {}: {} '' [error_code, message, details])))"
  using wiki_request_answer [OF assms(1-3)] assms(4)
  by (simp add: decode_body_def check_exception_def unpack3_def)

theorem error_envelope_witness:
  "fst (wiki_request details_example
          (example_world\<lparr>pending := [(20000, Json (JDict timeout_envelope))]\<rparr>))
     = Inl (NameError ''query'')"
proof -
  have p: "pending (example_world\<lparr>pending := [(20000, Json (JDict timeout_envelope))]\<rparr>)
             = (20000, Json (JDict timeout_envelope)) # []"
    by simp
  have e: "map_of timeout_envelope ''exception''
             = Some (JDict [(''message'', JStr ''Request Timeout''), (''code'', JInt 408),
                            (''details'', JStr ''upstream'')])"
    by (simp add: timeout_envelope_def)
  show ?thesis
    using error_envelope [OF format_details_example gate_example p e] by simp
qed

text \<open>\<^verbatim>\<open>lower\<close> on ASCII and on an upper-case letter of Latin-1 (201 becomes 233).\<close>

lemma lower_examples:
  "lower ''Zamorak EN'' = ''zamorak en''"
  "lower [char_of (201 :: nat)] = [char_of (233 :: nat)]"
  "lower [char_of (215 :: nat)] = [char_of (215 :: nat)]"
  by code_simp+

section \<open>The gateway: rate limiting\<close>

lemma gate_disabled: "\<not> RATE_LIMIT w \<Longrightarrow> rate_limit_gate w = Inr w"
  by (simp add: rate_limit_gate_def)

text \<open>
  With rate limiting disabled a request never sleeps and leaves the last-call
  timestamp as it was.
\<close>

lemma wiki_request_disabled:
  assumes "\<not> RATE_LIMIT w"
  shows "slept (snd (wiki_request params w)) = slept w
       \<and> RATE_LIMIT_LAST_CALL (snd (wiki_request params w)) = RATE_LIMIT_LAST_CALL w"
  using assms
  by (auto simp: wiki_request_def requests_get_def gate_disabled Let_def
        split: sum.splits list.splits prod.splits)

lemma int_total_seconds_small:
  "0 \<le> us \<Longrightarrow> us < 1000000 \<Longrightarrow> int_total_seconds us = Inr 0"
  by (simp add: int_total_seconds_def)

text \<open>
  C2. With rate limiting enabled and a minimum interval below one second (the default
  is 50 ms), the gate does not hold a request back: whatever the time of the last call,
  the request is dispatched at the clock reading at which it arrived, because the wait
  is cut down to whole seconds before it is slept. Two consecutive requests are then
  as close as the first round trip lets them be, not 50 ms apart.
\<close>

theorem rate_limit_gate_does_not_wait:
  assumes "RATE_LIMIT w"
    and "RATE_LIMIT_MIN_WAIT w = Some min_wait"
    and "0 \<le> min_wait" and "min_wait < 1000000"
    and "RATE_LIMIT_LAST_CALL w = Some last_call"
    and "last_call \<le> clock w"
    and "format_API_URL params = Inr api_url"
    and "pending w = (rtt, body) # rest"
  shows "map sent_at (dispatched (snd (wiki_request params w)))
           = map sent_at (dispatched w) @ [clock w]"
proof -
  have gate: "rate_limit_gate w = Inr w \<or> rate_limit_gate w
      = Inr (w\<lparr>clock := clock w + 0 * 1000000, slept := slept w @ [0]\<rparr>)"
    using assms(1-6)
    by (auto simp: rate_limit_gate_def sleep_def Let_def int_total_seconds_small)
  then show ?thesis
    using assms(7,8)
    by (auto simp: wiki_request_def requests_get_def Let_def)
qed

lemma first_request_world:
  "snd (wiki_request details_example two_requests_world) =
     two_requests_world
       \<lparr>dispatched :=
          [\<lparr>sent_at = 0, req_url = ''http://en.runescape.wikia.com/api/v1/Articles/Details?/'',
            req_params = AList.update ''format'' (JStr ''json'') details_example,
            req_headers = [(''User-Agent'', ''wikia'')]\<rparr>],
        clock := 20000, pending := [(20000, Json ok_body)],
        RATE_LIMIT_LAST_CALL := Some 20000\<rparr>"
  by (simp add: wiki_request_def format_details_example rate_limit_gate_def
        two_requests_world_def set_rate_limiting_def example_world_def requests_get_def Let_def)

lemma two_requests_world_fields:
  "RATE_LIMIT two_requests_world"
  "RATE_LIMIT_MIN_WAIT two_requests_world = Some 50000"
  by (simp_all add: two_requests_world_def set_rate_limiting_def default_min_wait_def)

text \<open>
  The first request leaves at 0 and returns at 20 ms; the second, made at once, leaves
  at 20 ms, 30 ms before the interval is over.
\<close>

theorem rate_limit_gate_does_not_wait_witness:
  "map sent_at (dispatched (snd (wiki_request details_example
      (snd (wiki_request details_example two_requests_world))))) = [0, 20000]"
proof -
  let ?w = "snd (wiki_request details_example two_requests_world)"
  have "map sent_at (dispatched (snd (wiki_request details_example ?w)))
          = map sent_at (dispatched ?w) @ [clock ?w]"
    by (rule rate_limit_gate_does_not_wait
          [where min_wait = 50000 and last_call = 20000 and rtt = 20000
             and body = "Json ok_body" and rest = "[]", OF _ _ _ _ _ _ format_details_example])
       (simp_all add: first_request_world two_requests_world_fields)
  then show ?thesis
    by (simp add: first_request_world)
qed

section \<open>Page resolution: the branches of the loader\<close>

lemma init_defaults:
  "init soup self sw None JNull redirect preload ot w =
     (Inl (ValueError ''Either a title or a pageid must be specified''), w)"
  by (simp add: init.simps init_attrs_def)

lemma details_params_fresh_page:
  "details_params (fresh_page t) (one_answer r) =
     Inr [(''action'', JStr ''Articles/Details?/''), (''sub_wikia'', JStr ''runescape''),
          (''lang'', JStr ''en.''), (''titles'', JStr t)]"
  by (simp add: details_params_def fresh_page_def new_object_def get_attr_def one_answer_def
        example_world_def)

lemma check_exception_items: "check_exception (items_response item) = Inr (items_response item)"
  by (simp add: check_exception_def items_response_def)

lemma lookup_fresh_page:
  "fst (lookup (fresh_page t) (one_answer (items_response item)))
     = ebind (py_getitem item ''id'') (\<lambda>i. Inr (item, i))"
proof -
  let ?p = "[(''action'', JStr ''Articles/Details?/''), (''sub_wikia'', JStr ''runescape''),
          (''lang'', JStr ''en.''), (''titles'', JStr t)]"
  have u: "format_API_URL ?p = Inr ''http://en.runescape.wikia.com/api/v1/Articles/Details?/''"
    by (simp add: format_API_URL_def format_field_def)
  have "fst (wiki_request ?p (one_answer (items_response item))) = Inr (items_response item)"
    using fst_wiki_request_one_answer [OF u] by (simp add: check_exception_items)
  then obtain w1 where "wiki_request ?p (one_answer (items_response item))
               = (Inr (items_response item), w1)"
    by (auto dest: fst_eqD)
  then show ?thesis
    by (simp add: lookup_def details_params_fresh_page first_item_def items_response_def)
qed

lemma page_fresh:
  "page soup (JStr ''runescape'') (Some t) JNull redirect preload w =
     (case load soup (fresh_page t) redirect preload w of
        (Inl e, w1) \<Rightarrow>
          (Inl (except_AttributeError e
             (WikiaError (Fmt COULD_NOT_LOCATE
                [title_or_pageid (Some t) JNull, JStr ''runescape'']))), w1)
      | (Inr self2, w1) \<Rightarrow>
          if preload then (Inl (NotModelled ''preload''), w1) else (Inr self2, w1))"
  by (simp add: page_def init.simps init_attrs_def fresh_page_def)

lemma init_attrs_fresh:
  "init_attrs new_object (Some t) JNull []
     = Inr (new_object\<lparr>title := Some t, original_title := Some t\<rparr>)"
  by (simp add: init_attrs_def)

text \<open>
  C1. A lookup whose response item is not missing and carries a redirect, with
  redirect-following enabled, never ends in a resolved page: once the checks of the
  redirect descriptor have passed, the loader re-enters the constructor with the target
  in the place of \<^verbatim>\<open>sub_wikia\<close> and neither a title nor a page id, and the constructor
  raises \<^verbatim>\<open>ValueError\<close>; if a check fails, its error is raised.
\<close>

theorem redirect_followed_never_resolves:
  assumes "lookup self w = (Inr (query, i), w1)"
    and "py_contains ''missing'' query = Inr False"
    and "py_contains ''redirects'' query = Inr True"
  shows "load soup self True preload w =
           (case redirect_target self query of
              Inl e \<Rightarrow> (Inl e, w1)
            | Inr target \<Rightarrow>
                (Inl (ValueError ''Either a title or a pageid must be specified''), w1))"
  using assms by (simp add: load.simps init_defaults split: sum.splits)

text \<open>
  The title \<^verbatim>\<open>Zammy\<close>, which the API reports as a redirect to \<^verbatim>\<open>Zamorak\<close>: both
  \<^verbatim>\<open>__load\<close> and \<^verbatim>\<open>page\<close> end in the \<^verbatim>\<open>ValueError\<close>.
\<close>

theorem redirect_followed_never_resolves_witness:
  "fst (load no_li (fresh_page ''Zammy'') True False (one_answer (items_response redirect_item)))
     = Inl (ValueError ''Either a title or a pageid must be specified'')
   \<and> fst (page no_li (JStr ''runescape'') (Some ''Zammy'') JNull True False
            (one_answer (items_response redirect_item)))
     = Inl (ValueError ''Either a title or a pageid must be specified'')"
proof -
  let ?w = "one_answer (items_response redirect_item)"
  have "fst (lookup (fresh_page ''Zammy'') ?w) = Inr (redirect_item, JInt 123)"
    by (simp add: lookup_fresh_page) (simp add: redirect_item_def)
  then obtain w1 where l: "lookup (fresh_page ''Zammy'') ?w = (Inr (redirect_item, JInt 123), w1)"
    by (auto dest: fst_eqD)
  have m: "py_contains ''missing'' redirect_item = Inr False"
    and r: "py_contains ''redirects'' redirect_item = Inr True"
    by (simp_all add: redirect_item_def)
  have t: "redirect_target (fresh_page ''Zammy'') redirect_item = Inr (JStr ''Zamorak'')"
    by (simp add: redirect_target_def redirect_item_def fresh_page_def new_object_def get_attr_def)
  have "load no_li (fresh_page ''Zammy'') True False ?w
          = (Inl (ValueError ''Either a title or a pageid must be specified''), w1)"
    using redirect_followed_never_resolves [OF l m r, of no_li False] by (simp add: t)
  then show ?thesis
    by (simp add: page_fresh except_AttributeError_def)
qed

text \<open>
  When the details request is answered and the first item of the response has an
  \<^verbatim>\<open>id\<close> and is flagged missing, \<^verbatim>\<open>page\<close> produces no object and fails with
  \<^verbatim>\<open>PageError\<close>: of the title when a title was requested, of the page id when a page
  id was.
\<close>

lemma page_missing:
  assumes "init_attrs new_object title_arg pageid_arg [] = Inr self1"
    and "lookup (self1\<lparr>sub_wikia := Some sw\<rparr>) w = (Inr (query, i), w1)"
    and "py_contains ''missing'' query = Inr True"
  shows "page soup sw title_arg pageid_arg redirect preload w =
           (Inl (case title_arg of
                   Some t \<Rightarrow> PageError (Some t) None
                 | None \<Rightarrow> PageError None (Some pageid_arg)), w1)"
proof (cases title_arg)
  case (Some t)
  then have s: "self1 = new_object\<lparr>title := Some t, original_title := Some t\<rparr>"
    using assms(1) by (simp add: init_attrs_def)
  have a: "init_attrs new_object (Some t) JNull [] = Inr self1"
    using s by (simp add: init_attrs_def)
  have "load soup (self1\<lparr>sub_wikia := Some sw\<rparr>) redirect preload w
          = (Inl (PageError (Some t) None), w1)"
    using assms(2,3) s by (simp add: load.simps missing_error_def)
  then show ?thesis
    using Some a by (simp add: page_def init.simps except_AttributeError_def)
next
  case None
  then have p: "pageid_arg \<noteq> JNull" and s: "self1 = new_object\<lparr>pageid := Some pageid_arg\<rparr>"
    using assms(1) by (auto simp: init_attrs_def split: if_splits)
  have "load soup (self1\<lparr>sub_wikia := Some sw\<rparr>) True preload w
          = (Inl (PageError None (Some pageid_arg)), w1)"
    using assms(2,3) s by (simp add: load.simps missing_error_def new_object_def)
  then show ?thesis
    using None p assms(1) by (simp add: page_def init.simps except_AttributeError_def)
qed

lemma page_missing_example:
  "fst (page no_li (JStr ''runescape'') (Some ''Zzz'') JNull True False
          (one_answer (items_response missing_item)))
     = Inl (PageError (Some ''Zzz'') None)"
proof -
  let ?w = "one_answer (items_response missing_item)"
  have "fst (lookup (fresh_page ''Zzz'') ?w) = Inr (missing_item, JInt 0)"
    by (simp add: lookup_fresh_page) (simp add: missing_item_def)
  then obtain w1 where
    l: "lookup (new_object\<lparr>title := Some ''Zzz'', original_title := Some ''Zzz''\<rparr>
                  \<lparr>sub_wikia := Some (JStr ''runescape'')\<rparr>) ?w = (Inr (missing_item, JInt 0), w1)"
    by (auto simp: fresh_page_def dest: fst_eqD)
  have m: "py_contains ''missing'' missing_item = Inr True"
    by (simp add: missing_item_def)
  show ?thesis
    using page_missing [OF init_attrs_fresh l m, of no_li True False] by simp
qed

text \<open>
  C3. A lookup whose response item is flagged missing does not always fail with
  \<^verbatim>\<open>PageError\<close>. The loader reads \<^verbatim>\<open>query['id']\<close> before it looks for \<^verbatim>\<open>missing\<close>:
  when the item that is flagged missing has no \<^verbatim>\<open>id\<close>, the lookup ends in
  \<^verbatim>\<open>KeyError\<close> for \<^verbatim>\<open>id\<close> and the branch that raises \<^verbatim>\<open>PageError\<close> is not reached.
\<close>

theorem missing_without_id_raises_KeyError:
  assumes "details_params self w = Inr query_params"
    and "wiki_request query_params w = (Inr request, w1)"
    and "first_item request = Inr (JDict item)"
    and "map_of item ''missing'' = Some m"
    and "map_of item ''id'' = None"
  shows "load soup self redirect preload w = (Inl (KeyError ''id''), w1)"
  using assms by (simp add: load.simps lookup_def)

text \<open>
  The title \<^verbatim>\<open>Zzz\<close>, answered by an item that is flagged missing and has no
  \<^verbatim>\<open>id\<close>: \<^verbatim>\<open>page\<close> ends in the \<^verbatim>\<open>KeyError\<close>.
\<close>

theorem missing_without_id_raises_KeyError_witness:
  "py_contains ''missing'' missing_item_without_id = Inr True
   \<and> fst (page no_li (JStr ''runescape'') (Some ''Zzz'') JNull True False
            (one_answer (items_response missing_item_without_id)))
       = Inl (KeyError ''id'')"
proof -
  let ?r = "items_response missing_item_without_id"
  let ?p = "[(''action'', JStr ''Articles/Details?/''), (''sub_wikia'', JStr ''runescape''),
          (''lang'', JStr ''en.''), (''titles'', JStr ''Zzz'')]"
  have u: "format_API_URL ?p = Inr ''http://en.runescape.wikia.com/api/v1/Articles/Details?/''"
    by (simp add: format_API_URL_def format_field_def)
  have "fst (wiki_request ?p (one_answer ?r)) = Inr ?r"
    using fst_wiki_request_one_answer [OF u] by (simp add: check_exception_items)
  then obtain w1 where w: "wiki_request ?p (one_answer ?r) = (Inr ?r, w1)"
    by (auto dest: fst_eqD)
  have f: "first_item ?r = Inr (JDict [(''title'', JStr ''Zzz''), (''missing'', JStr [])])"
    by (simp add: first_item_def items_response_def missing_item_without_id_def)
  have "load no_li (fresh_page ''Zzz'') True False (one_answer ?r) = (Inl (KeyError ''id''), w1)"
    by (rule missing_without_id_raises_KeyError [OF details_params_fresh_page w f]) simp_all
  then show ?thesis
    by (simp add: page_fresh except_AttributeError_def missing_item_without_id_def)
qed

lemma lookup_has_reference:
  assumes "lookup self w = (Inr qi, w1)"
  shows "title self \<noteq> None \<or> pageid self \<noteq> None"
  using assms
  by (auto simp: lookup_def details_params_def get_attr_def Let_def
        split: sum.splits option.splits if_splits)

lemma disambiguation_KeyError:
  assumes "title self \<noteq> None \<or> pageid self \<noteq> None"
  shows "disambiguation soup self pg i w = (KeyError ''sub_wikia'', w)"
  using assms
  by (auto simp: disambiguation_def wiki_request_def format_API_URL_def format_field_def
        get_attr_def split: option.splits)

text \<open>
  C4. A lookup whose response item is neither missing nor a redirect and carries
  \<^verbatim>\<open>pageprops\<close> never fails with \<^verbatim>\<open>DisambiguationError\<close>: the parameters of the
  request for the markup hold \<^verbatim>\<open>lang\<close> and the title or page id only, so building the
  URL raises \<^verbatim>\<open>KeyError\<close> for \<^verbatim>\<open>sub_wikia\<close> before anything is fetched or parsed.
\<close>

theorem disambiguation_never_raised:
  assumes "lookup self w = (Inr (query, i), w1)"
    and "py_contains ''missing'' query = Inr False"
    and "py_contains ''redirects'' query = Inr False"
    and "py_contains ''pageprops'' query = Inr True"
  shows "load soup self redirect preload w = (Inl (KeyError ''sub_wikia''), w1)"
  using assms disambiguation_KeyError [OF lookup_has_reference [OF assms(1)]]
  by (simp add: load.simps)

theorem disambiguation_never_raised_witness:
  "fst (load no_li (fresh_page ''Mercury'') True False
          (one_answer (items_response disambiguation_item)))
     = Inl (KeyError ''sub_wikia'')
   \<and> fst (page no_li (JStr ''runescape'') (Some ''Mercury'') JNull True False
            (one_answer (items_response disambiguation_item)))
     = Inl (KeyError ''sub_wikia'')"
proof -
  let ?w = "one_answer (items_response disambiguation_item)"
  have "fst (lookup (fresh_page ''Mercury'') ?w) = Inr (disambiguation_item, JInt 7)"
    by (simp add: lookup_fresh_page) (simp add: disambiguation_item_def)
  then obtain w1 where
    l: "lookup (fresh_page ''Mercury'') ?w = (Inr (disambiguation_item, JInt 7), w1)"
    by (auto dest: fst_eqD)
  have m: "py_contains ''missing'' disambiguation_item = Inr False"
    and r: "py_contains ''redirects'' disambiguation_item = Inr False"
    and d: "py_contains ''pageprops'' disambiguation_item = Inr True"
    by (simp_all add: disambiguation_item_def)
  have "load no_li (fresh_page ''Mercury'') True False ?w = (Inl (KeyError ''sub_wikia''), w1)"
    by (rule disambiguation_never_raised [OF l m r d])
  then show ?thesis
    by (simp add: page_fresh except_AttributeError_def)
qed

section \<open>Continued queries: draining the cursor\<close>

lemma map_of_dict_update:
  "map_of other k = None \<Longrightarrow> map_of (dict_update d other) k = map_of d k"
proof (induction other arbitrary: d)
  case Nil
  then show ?case by (simp add: dict_update_def)
next
  case (Cons kv other)
  then have "map_of (dict_update (AList.update (fst kv) (snd kv) d) other) k
               = map_of (AList.update (fst kv) (snd kv) d) k"
    by (cases kv) (auto split: if_splits)
  moreover have "fst kv \<noteq> k"
    using Cons.prems by (cases kv) (auto split: if_splits)
  ultimately show ?case
    by (simp add: dict_update_def update_conv')
qed

lemma format_API_URL_dict_update:
  "url_fields_free tok \<Longrightarrow> format_API_URL (dict_update qp tok) = format_API_URL qp"
  by (simp add: format_API_URL_def format_field_def url_fields_free_def map_of_dict_update)

lemma gate_passes:
  assumes "gate_ready w"
  shows "\<exists>w1. rate_limit_gate w = Inr w1 \<and> pending w1 = pending w \<and> dispatched w1 = dispatched w
           \<and> RATE_LIMIT w1 = RATE_LIMIT w \<and> RATE_LIMIT_MIN_WAIT w1 = RATE_LIMIT_MIN_WAIT w
           \<and> cache w1 = cache w"
proof (cases "RATE_LIMIT w")
  case False
  then show ?thesis
    by (simp add: rate_limit_gate_def)
next
  case True
  then obtain min_wait where m: "RATE_LIMIT_MIN_WAIT w = Some min_wait"
    "min_wait < 17179869184 * 1000000"
    "case RATE_LIMIT_LAST_CALL w of None \<Rightarrow> True | Some last_call \<Rightarrow> last_call \<le> clock w"
    using assms by (auto simp: gate_ready_def split: option.splits)
  show ?thesis
  proof (cases "RATE_LIMIT_LAST_CALL w")
    case None
    then show ?thesis
      using True by (simp add: rate_limit_gate_def)
  next
    case (Some last_call)
    then have l: "last_call \<le> clock w"
      using m(3) by simp
    show ?thesis
    proof (cases "last_call + min_wait > clock w")
      case False
      then show ?thesis
        using True Some m(1) by (simp add: rate_limit_gate_def)
    next
      case wait: True
      let ?wait = "last_call + min_wait - clock w"
      have "0 < ?wait" and "?wait < 17179869184 * 1000000"
        using wait l m(2) by simp_all
      then have "int_total_seconds ?wait = Inr (?wait div 1000000)" and "0 \<le> ?wait div 1000000"
        by (simp_all add: int_total_seconds_def)
      then show ?thesis
        using True Some m(1) wait
        by (simp add: rate_limit_gate_def sleep_def Let_def)
    qed
  qed
qed

lemma wiki_request_step:
  assumes "format_API_URL params = Inr api_url"
    and "gate_ready w"
    and "pending w = (d, Json r) # rest"
    and "check_exception r = Inr r"
  shows "\<exists>w1. wiki_request params w = (Inr r, w1) \<and> pending w1 = rest
           \<and> length (dispatched w1) = Suc (length (dispatched w))
           \<and> gate_ready w1 \<and> cache w1 = cache w"
proof -
  obtain g where g: "rate_limit_gate w = Inr g" "pending g = pending w"
    "dispatched g = dispatched w" "RATE_LIMIT g = RATE_LIMIT w"
    "RATE_LIMIT_MIN_WAIT g = RATE_LIMIT_MIN_WAIT w" "cache g = cache w"
    using gate_passes [OF assms(2)] by blast
  have "RATE_LIMIT w \<Longrightarrow> \<exists>m. RATE_LIMIT_MIN_WAIT w = Some m \<and> m < 17179869184 * 1000000"
    using assms(2) by (auto simp: gate_ready_def split: option.splits)
  then show ?thesis
    using assms(1,3,4) g
    by (auto simp: wiki_request_def requests_get_def Let_def decode_body_def gate_ready_def)
qed

lemma no_exception:
  "py_contains ''exception'' r = Inr False \<Longrightarrow> check_exception r = Inr r"
  by (simp add: check_exception_def)

lemma spec_pagesD:
  assumes "spec_pages r = Some ps"
  obtains q where "py_contains ''query'' r = Inr True" "py_getitem r ''query'' = Inr (JDict q)"
    "py_getitem (JDict q) ''pages'' = Inr (JDict ps)"
  using assms
  by (auto simp: spec_pages_def split: json.splits option.splits)

lemma batch_generator:
  assumes "map_of qp ''generator'' \<noteq> None" and "spec_pages r = Some ps"
  shows "batch self qp pr r = Inr (spec_items True page_id pr r)"
proof -
  obtain q where "py_getitem r ''query'' = Inr (JDict q)"
    "py_getitem (JDict q) ''pages'' = Inr (JDict ps)"
    using assms(2) by (rule spec_pagesD)
  then show ?thesis
    using assms by (simp add: batch_def spec_items_def)
qed

lemma continued_answerD:
  assumes "continued_answer r"
  obtains ps tok where "check_exception r = Inr r" "spec_pages r = Some ps"
    "py_contains ''continue'' r = Inr True" "py_getitem r ''continue'' = Inr (JDict tok)"
    "url_fields_free tok"
  using assms
  by (auto simp: continued_answer_def continuation_def no_exception
        split: sum.splits bool.splits json.splits option.splits)

lemma loop_last:
  assumes "format_API_URL qp = Inr api_url"
    and "map_of qp ''generator'' \<noteq> None"
    and "url_fields_free tok"
    and "gate_ready w"
    and "pending w = (d, Json fin) # rest"
    and "last_answer fin"
  shows "\<exists>w'. continued_loop self qp pr (JDict tok) w =
              (spec_items True page_id pr fin, Finished, w')
           \<and> pending w' = rest \<and> length (dispatched w') = Suc (length (dispatched w))"
proof -
  have u: "format_API_URL (dict_update qp tok) = Inr api_url"
    using assms(1,3) by (simp add: format_API_URL_dict_update)
  have c: "check_exception fin = Inr fin"
    using assms(6) by (simp add: last_answer_def no_exception)
  obtain w1 where w1: "wiki_request (dict_update qp tok) w = (Inr fin, w1)" "pending w1 = rest"
    "length (dispatched w1) = Suc (length (dispatched w))"
    using wiki_request_step [OF u assms(4,5) c] by blast
  consider (items) ps where "spec_pages fin = Some ps" "py_contains ''continue'' fin = Inr False"
    | (none) "py_contains ''query'' fin = Inr False"
    using assms(6) by (auto simp: last_answer_def)
  then show ?thesis
  proof cases
    case items
    have q: "py_contains ''query'' fin = Inr True"
      using items(1) by (rule spec_pagesD)
    show ?thesis
      using w1 q items(2) batch_generator [OF assms(2) items(1), where self = self and pr = pr and page_id = page_id]
      by (subst continued_loop.simps) simp
  next
    case none
    then have "spec_pages fin = None"
      by (auto simp: spec_pages_def split: json.splits option.splits)
    then have "spec_items True page_id pr fin = []"
      by (simp add: spec_items_def)
    then show ?thesis
      using w1 none by (subst continued_loop.simps) simp
  qed
qed

lemma loop_drains:
  assumes "format_API_URL qp = Inr api_url"
    and "map_of qp ''generator'' \<noteq> None"
    and "last_answer fin"
  shows "url_fields_free tok \<Longrightarrow> gate_ready w \<Longrightarrow>
         length ds = length rs \<Longrightarrow>
         pending w = zip ds (map Json rs) @ (d, Json fin) # rest \<Longrightarrow>
         list_all continued_answer rs \<Longrightarrow>
         \<exists>w'. continued_loop self qp pr (JDict tok) w =
              (concat (map (spec_items True page_id pr) rs) @ spec_items True page_id pr fin,
               Finished, w')
           \<and> pending w' = rest
           \<and> length (dispatched w') = length (dispatched w) + length rs + 1"
proof (induction rs arbitrary: tok w ds)
  case Nil
  then show ?case
    using loop_last [OF assms(1,2) Nil.prems(1,2) _ assms(3), where d = d and rest = rest
        and self = self and pr = pr and page_id = page_id]
    by simp
next
  case (Cons r rs)
  obtain d0 ds' where ds: "ds = d0 # ds'" "length ds' = length rs"
    using Cons.prems(3) by (cases ds) auto
  have p: "pending w = (d0, Json r) # (zip ds' (map Json rs) @ (d, Json fin) # rest)"
    using Cons.prems(4) ds by simp
  have cp: "continued_answer r" and rest_ok: "list_all continued_answer rs"
    using Cons.prems(5) by simp_all
  obtain ps tok' where r: "check_exception r = Inr r" "spec_pages r = Some ps"
    "py_contains ''continue'' r = Inr True" "py_getitem r ''continue'' = Inr (JDict tok')"
    "url_fields_free tok'"
    using cp by (rule continued_answerD)
  have q: "py_contains ''query'' r = Inr True"
    using r(2) by (rule spec_pagesD)
  have b: "batch self qp pr r = Inr (spec_items True page_id pr r)"
    by (rule batch_generator [OF assms(2) r(2)])
  have u: "format_API_URL (dict_update qp tok) = Inr api_url"
    using assms(1) Cons.prems(1) by (simp add: format_API_URL_dict_update)
  obtain w1 where w1: "wiki_request (dict_update qp tok) w = (Inr r, w1)"
    "pending w1 = zip ds' (map Json rs) @ (d, Json fin) # rest"
    "length (dispatched w1) = Suc (length (dispatched w))"
    "gate_ready w1"
    using wiki_request_step [OF u Cons.prems(2) p r(1)] by blast
  obtain w' where w': "continued_loop self qp pr (JDict tok') w1 =
        (concat (map (spec_items True page_id pr) rs) @ spec_items True page_id pr fin,
         Finished, w')"
    "pending w' = rest" "length (dispatched w') = length (dispatched w1) + length rs + 1"
    using Cons.IH [OF r(5) w1(4) ds(2) w1(2) rest_ok] by blast
  have "continued_loop self qp pr (JDict tok) w =
          (spec_items True page_id pr r @ concat (map (spec_items True page_id pr) rs)
             @ spec_items True page_id pr fin,
           Finished, w')"
    using w1(1) q b r(3,4) w'(1) by (subst continued_loop.simps) simp
  then show ?case
    using w'(2,3) w1(3) by simp
qed

text \<open>
  In generator mode the cursor does what the specification says. A query is answered
  by any number of responses that each carry a results container and a continuation
  token, then a last one: draining yields the entries of all containers, in arrival
  order, ends normally, has sent one request per response, and leaves untouched what
  the server would answer next. A last response without the \<^verbatim>\<open>query\<close> member adds
  nothing.
\<close>

lemma generator_query_drains:
  assumes "title_query_param self = Inr tq"
    and "qp = dict_update query_params tq"
    and "pr = (case map_of qp ''prop'' of None \<Rightarrow> JNull | Some v \<Rightarrow> v)"
    and "map_of qp ''generator'' \<noteq> None"
    and "format_API_URL qp = Inr api_url"
    and "gate_ready w"
    and "length ds = length rs"
    and "pending w = zip ds (map Json rs) @ (d, Json fin) # rest"
    and "list_all continued_answer rs"
    and "last_answer fin"
  shows "\<exists>w'. continued_query self query_params w =
              (concat (map (spec_items True page_id pr) rs) @ spec_items True page_id pr fin,
               Finished, w')
           \<and> pending w' = rest
           \<and> length (dispatched w') = length (dispatched w) + length rs + 1"
proof -
  have "url_fields_free []"
    by (simp add: url_fields_free_def)
  from loop_drains [OF assms(5,4,10) this assms(6,7,8,9),
      where self = self and pr = pr and page_id = page_id]
  show ?thesis
    using assms(1,2,3) by (simp add: continued_query_def Let_def)
qed

lemma generator_facts:
  "title_query_param zamorak = Inr [(''titles'', JStr ''zamorak'')]"
  "dict_update generator_params [(''titles'', JStr ''zamorak'')]
     = generator_params @ [(''titles'', JStr ''zamorak'')]"
  "format_API_URL (generator_params @ [(''titles'', JStr ''zamorak'')])
     = Inr ''http://en.runescape.wikia.com/api/v1/Articles/List?/''"
  "(case map_of (generator_params @ [(''titles'', JStr ''zamorak'')]) ''prop'' of
      None \<Rightarrow> JNull | Some v \<Rightarrow> v) = JNull"
  "map_of (generator_params @ [(''titles'', JStr ''zamorak'')]) ''generator'' \<noteq> None"
  by (simp_all add: title_query_param_def zamorak_def dict_update_def generator_params_def
        format_API_URL_def format_field_def)

lemma generator_pages:
  "continued_answer page1" "continued_answer page2" "last_answer page3" "last_answer no_container"
  by (simp_all add: continued_answer_def last_answer_def continuation_def url_fields_free_def
        spec_pages_def page1_def page2_def page3_def no_container_def)

lemma generator_items:
  "spec_items True JNull JNull page1 = [JStr ''a'']"
  "spec_items True JNull JNull page2 = [JStr ''b'']"
  "spec_items True JNull JNull page3 = [JStr ''c'']"
  "spec_items True JNull JNull no_container = []"
  by (simp_all add: spec_items_def spec_pages_def page1_def page2_def page3_def no_container_def)

lemma gate_ready_answers: "gate_ready (answers rs)"
  by (simp add: gate_ready_def answers_def example_world_def)

text \<open>
  Three pages, the first two with a token: the items of all three, and the fourth
  answer is never asked for. A response without the container after the first page:
  the item of the first page only.
\<close>

lemma generator_query_drains_example:
  "(\<exists>w'. continued_query zamorak generator_params (answers [page1, page2, page3, page1])
            = ([JStr ''a'', JStr ''b'', JStr ''c''], Finished, w')
          \<and> pending w' = [(20000, Json page1)] \<and> length (dispatched w') = 3)
   \<and> (\<exists>w'. continued_query zamorak generator_params (answers [page1, no_container, page3])
            = ([JStr ''a''], Finished, w')
          \<and> pending w' = [(20000, Json page3)] \<and> length (dispatched w') = 2)"
proof
  have p: "pending (answers [page1, page2, page3, page1])
             = zip [20000, 20000] (map Json [page1, page2]) @ (20000, Json page3)
                 # [(20000, Json page1)]"
    by (simp add: answers_def)
  have "list_all continued_answer [page1, page2]"
    by (simp add: generator_pages)
  from generator_query_drains [OF generator_facts(1) generator_facts(2) [symmetric]
      generator_facts(4) [symmetric] generator_facts(5) generator_facts(3) gate_ready_answers
      _ p this generator_pages(3), where page_id = JNull]
  show "\<exists>w'. continued_query zamorak generator_params (answers [page1, page2, page3, page1])
            = ([JStr ''a'', JStr ''b'', JStr ''c''], Finished, w')
          \<and> pending w' = [(20000, Json page1)] \<and> length (dispatched w') = 3"
    by (simp add: generator_items answers_def example_world_def numeral_2_eq_2 numeral_3_eq_3)
next
  have p: "pending (answers [page1, no_container, page3])
             = zip [20000] (map Json [page1]) @ (20000, Json no_container)
                 # [(20000, Json page3)]"
    by (simp add: answers_def)
  have "list_all continued_answer [page1]"
    by (simp add: generator_pages)
  from generator_query_drains [OF generator_facts(1) generator_facts(2) [symmetric]
      generator_facts(4) [symmetric] generator_facts(5) generator_facts(3) gate_ready_answers
      _ p this generator_pages(4), where page_id = JNull]
  show "\<exists>w'. continued_query zamorak generator_params (answers [page1, no_container, page3])
            = ([JStr ''a''], Finished, w')
          \<and> pending w' = [(20000, Json page3)] \<and> length (dispatched w') = 2"
    by (simp add: generator_items answers_def example_world_def numeral_2_eq_2 numeral_3_eq_3)
qed

text \<open>
  C5. Outside generator mode the cursor does not yield the items of the responses. A
  page that the resolver has built holds the page id as the number the API sent; the
  loop looks the page up with \<^verbatim>\<open>pages[self.pageid]\<close>, and the keys of a decoded
  container are strings. Whatever the container of the first response holds, the
  generator yields nothing and ends in \<^verbatim>\<open>KeyError\<close> for the page id.
\<close>

theorem page_query_raises_KeyError:
  assumes "title_query_param self = Inr tq"
    and "qp = dict_update query_params tq"
    and "map_of qp ''generator'' = None"
    and "pageid self = Some (JInt n)"
    and "format_API_URL qp = Inr api_url"
    and "gate_ready w"
    and "pending w = (d, Json r) # rest"
    and "py_contains ''exception'' r = Inr False"
    and "spec_pages r = Some ps"
  shows "\<exists>w'. continued_query self query_params w = ([], Raised (KeyError (show_int n)), w')"
proof -
  have u: "format_API_URL (dict_update qp []) = Inr api_url"
    using assms(5) by (simp add: dict_update_def)
  obtain w1 where w1: "wiki_request (dict_update qp []) w = (Inr r, w1)"
    using wiki_request_step [OF u assms(6,7) no_exception [OF assms(8)]] by blast
  obtain q where q: "py_contains ''query'' r = Inr True" "py_getitem r ''query'' = Inr (JDict q)"
    "py_getitem (JDict q) ''pages'' = Inr (JDict ps)"
    using assms(9) by (rule spec_pagesD)
  have "batch self qp pr r = Inl (KeyError (show_int n))" for pr
    using q(2,3) assms(3,4) by (simp add: batch_def get_attr_def)
  then have "continued_loop self qp pr (JDict []) w = ([], Raised (KeyError (show_int n)), w1)"
    for pr
    using w1 q(1) by (subst continued_loop.simps) simp
  then show ?thesis
    using assms(1,2) by (simp add: continued_query_def Let_def)
qed

text \<open>
  The resolved page with id 42 and a query for its links: the specification's items
  are the two links filed under \<^verbatim>\<open>42\<close>, the generator yields none and raises.
\<close>

theorem page_query_raises_KeyError_witness:
  "spec_items False (JInt 42) (JStr ''links'') links_page = [JStr ''a'', JStr ''b'']
   \<and> (\<exists>w'. continued_query zamorak links_params (answers [links_page])
            = ([], Raised (KeyError ''42''), w'))"
proof -
  have s: "show_int 42 = ''42''"
    by code_simp
  have i: "spec_items False (JInt 42) (JStr ''links'') links_page = [JStr ''a'', JStr ''b'']"
    by (simp add: spec_items_def spec_pages_def links_page_def s)
  have f: "title_query_param zamorak = Inr [(''titles'', JStr ''zamorak'')]"
    "links_params @ [(''titles'', JStr ''zamorak'')]
       = dict_update links_params [(''titles'', JStr ''zamorak'')]"
    "map_of (links_params @ [(''titles'', JStr ''zamorak'')]) ''generator'' = None"
    "pageid zamorak = Some (JInt 42)"
    "format_API_URL (links_params @ [(''titles'', JStr ''zamorak'')])
       = Inr ''http://en.runescape.wikia.com/api/v1/Articles/List?/''"
    "pending (answers [links_page]) = (20000, Json links_page) # []"
    "py_contains ''exception'' links_page = Inr False"
    "spec_pages links_page
       = Some [(''42'', JDict [(''links'', JList [JStr ''a'', JStr ''b''])])]"
    by (simp_all add: title_query_param_def zamorak_def dict_update_def links_params_def
          format_API_URL_def format_field_def answers_def links_page_def spec_pages_def)
  from page_query_raises_KeyError [OF f(1,2,3,4,5) gate_ready_answers f(6,7,8)]
  show ?thesis
    using i by (simp add: s)
qed

section \<open>Sections: what a section returns\<close>

lemma section_segments_empty:
  "section_segments section_title sl = Inr xs \<Longrightarrow> xs = []"
  by (induction sl arbitrary: xs) (auto split: if_splits)

text \<open>
  C9. Whenever \<^verbatim>\<open>section\<close> returns a string, the string is empty: the generator keeps
  a section when the whole section object equals the title, which no object with a
  title and a content does, so no paragraph of the named section is ever returned.
\<close>

theorem section_returns_no_text:
  assumes "section_of_page self section_title w = (Inr (Some s, self'), w')"
  shows "s = []"
proof -
  have "py_join newline texts = Inr joined \<Longrightarrow> section_segments section_title sl = Inr texts
          \<Longrightarrow> joined = []" for texts joined sl
    by (auto simp: py_join_def dest!: section_segments_empty)
  then show ?thesis
    using assms
    by (auto simp: section_of_page_def ebind_def
          split: prod.splits sum.splits if_splits)
qed

text \<open>For a name that is not among the section titles the result is \<^verbatim>\<open>None\<close>.\<close>

lemma section_absent:
  assumes "sections self w = (Inr (ts, self1), w1)" and "JStr section_title \<notin> set ts"
  shows "section_of_page self section_title w = (Inr (None, self1), w1)"
  using assms by (simp add: section_of_page_def list_ex_iff)

lemma rate_limit_gate_LANG:
  "rate_limit_gate w = Inr w1 \<Longrightarrow> LANG w1 = LANG w"
  by (auto simp: rate_limit_gate_def sleep_def Let_def ebind_def
        split: if_splits option.splits sum.splits)

lemma wiki_request_LANG:
  "wiki_request params w = (r, w1) \<Longrightarrow> LANG w1 = LANG w"
  by (auto simp: wiki_request_def requests_get_def Let_def
        dest!: rate_limit_gate_LANG split: sum.splits list.splits prod.splits if_splits)

lemma simple_json_params_zamorak:
  "LANG w = ''en.'' \<Longrightarrow>
   simple_json_params (zamorak\<lparr>sections_attr := a\<rparr>) w =
     Inr [(''action'', JStr ''Articles/AsSimpleJson?/''), (''id'', JInt 42),
          (''sub_wikia'', JStr ''runescape''), (''lang'', JStr ''en.'')]"
  by (simp add: simple_json_params_def zamorak_def get_attr_def)

lemma history_request:
  assumes "gate_ready w"
    and "LANG w = ''en.''"
    and "pending w = (d, Json history_sections) # rest"
  shows "\<exists>w1. wiki_request [(''action'', JStr ''Articles/AsSimpleJson?/''), (''id'', JInt 42),
          (''sub_wikia'', JStr ''runescape''), (''lang'', JStr ''en.'')] w
            = (Inr history_sections, w1)
     \<and> pending w1 = rest
     \<and> gate_ready w1
     \<and> LANG w1 = ''en.''"
proof -
  let ?p = "[(''action'', JStr ''Articles/AsSimpleJson?/''), (''id'', JInt 42),
          (''sub_wikia'', JStr ''runescape''), (''lang'', JStr ''en.'')]"
  have u: "format_API_URL ?p = Inr ''http://en.runescape.wikia.com/api/v1/Articles/AsSimpleJson?/''"
    by (simp add: format_API_URL_def format_field_def)
  have c: "check_exception history_sections = Inr history_sections"
    by (simp add: check_exception_def history_sections_def)
  from wiki_request_step [OF u assms(1,3) c] obtain w1 where
    w1: "wiki_request ?p w = (Inr history_sections, w1)" "pending w1 = rest"
      "gate_ready w1"
    by (elim exE conjE)
  have "LANG w1 = ''en.''"
    using wiki_request_LANG [OF w1(1)] assms(2) by (simp only:)
  with w1 show ?thesis
    by (intro exI conjI)
qed

lemma history_segments:
  "section_segments ''History''
     [JDict [(''title'', JStr ''History''), (''level'', JInt 1),
             (''content'', JList [JDict [(''type'', JStr ''paragraph''), (''text'', JStr ''abc'')]])]]
     = Inr []"
  by simp

text \<open>
  A page whose section \<^verbatim>\<open>History\<close> holds the paragraph \<^verbatim>\<open>abc\<close>: \<^verbatim>\<open>section('History')\<close>
  returns the empty string.
\<close>

theorem section_returns_no_text_witness:
  "fst (section_of_page zamorak ''History'' (answers [history_sections, history_sections]))
     = Inr (Some [], zamorak\<lparr>sections_attr := Some [JStr ''History'']\<rparr>)"
proof -
  let ?w = "answers [history_sections, history_sections]"
  let ?p = "[(''action'', JStr ''Articles/AsSimpleJson?/''), (''id'', JInt 42),
          (''sub_wikia'', JStr ''runescape''), (''lang'', JStr ''en.'')]"
  let ?z = "zamorak\<lparr>sections_attr := Some [JStr ''History'']\<rparr>"
  have g: "gate_ready ?w"
    and l: "LANG ?w = ''en.''"
    and p: "pending ?w = (20000, Json history_sections) # [(20000, Json history_sections)]"
    by (simp_all add: gate_ready_def answers_def example_world_def)
  from history_request [OF g l p] obtain w1 where
    w1: "wiki_request ?p ?w = (Inr history_sections, w1)"
      "pending w1 = [(20000, Json history_sections)]"
      "gate_ready w1" "LANG w1 = ''en.''"
    by (elim exE conjE)
  from history_request [OF w1(3,4,2)] obtain w2 where
    w2: "wiki_request ?p w1 = (Inr history_sections, w2)"
    by (elim exE conjE)
  have z: "zamorak\<lparr>sections_attr := None\<rparr> = zamorak"
    by (simp add: zamorak_def)
  have s: "sections zamorak ?w = (Inr ([JStr ''History''], ?z), w1)"
    using simple_json_params_zamorak [OF l, of None] w1(1)
    by (simp add: z sections_def history_sections_def)
       (simp add: zamorak_def)
  have e: "section_of_page zamorak ''History'' ?w = (Inr (Some [], ?z), w2)"
    using simple_json_params_zamorak [OF w1(4), of "Some [JStr ''History'']"] w2
    by (simp add: s section_of_page_def py_join_def)
       (simp add: history_sections_def)
  show ?thesis
    using section_returns_no_text [OF e] e by simp
qed

section \<open>Equality of pages\<close>

text \<open>
  C10. Comparing a page with any other object never raises. The result is true exactly
  when both sides have the attributes \<^verbatim>\<open>pageid\<close>, \<^verbatim>\<open>title\<close> and \<^verbatim>\<open>url\<close> and the three
  pairs of values are equal; it is false as soon as one of the six attributes is absent.
\<close>

theorem WikiaPage_eq_total:
  "WikiaPage_eq self other =
     (\<exists>a b c d e f.
        pageid self = Some a \<and> attr_pageid other = Some b \<and>
        title self = Some c \<and> attr_title other = Some d \<and>
        url self = Some e \<and> attr_url other = Some f \<and>
        py_eq a b \<and> py_eq (JStr c) d \<and> py_eq (JStr e) f)"
  by (cases "pageid self"; cases "attr_pageid other"; cases "title self";
      cases "attr_title other"; cases "url self"; cases "attr_url other")
     (simp_all add: WikiaPage_eq_def eq_attrs_def as_object_def get_attr_def)

text \<open>Compared with a value that has none of the three attributes, a page is unequal.\<close>

lemma WikiaPage_eq_plain_value: "\<not> WikiaPage_eq self plain_value"
  by (cases "pageid self")
     (simp_all add: WikiaPage_eq_def eq_attrs_def plain_value_def get_attr_def as_object_def)

section \<open>The result cache and a change of language\<close>

lemma rate_limit_gate_cache:
  "rate_limit_gate w = Inr w1 \<Longrightarrow> cache w1 = cache w"
  by (auto simp: rate_limit_gate_def sleep_def Let_def ebind_def
        split: if_splits option.splits sum.splits)

lemma wiki_request_cache:
  "wiki_request params w = (r, w1) \<Longrightarrow> cache w1 = cache w"
  by (auto simp: wiki_request_def requests_get_def Let_def
        dest!: rate_limit_gate_cache split: sum.splits list.splits prod.splits if_splits)

lemma lookup_cache:
  "lookup self w = (r, w1) \<Longrightarrow> cache w1 = cache w"
  by (auto simp: lookup_def dest!: wiki_request_cache split: sum.splits prod.splits)

lemma disambiguation_cache:
  "disambiguation soup self pg i w = (e, w1) \<Longrightarrow> cache w1 = cache w"
  by (auto simp: disambiguation_def dest!: wiki_request_cache
        split: sum.splits prod.splits option.splits)

lemma load_cache:
  assumes "load soup self redirect preload w = (r, w1)"
  shows "cache w1 = cache w"
proof (cases "lookup self w")
  case (Pair x w0)
  then have c: "cache w0 = cache w"
    by (rule lookup_cache)
  show ?thesis
  proof (cases x)
    case (Inl e)
    then show ?thesis
      using assms Pair c by (simp add: load.simps)
  next
    case (Inr qi)
    obtain e w2 where d: "disambiguation soup self (fst qi) (snd qi) w0 = (e, w2)"
      by (cases "disambiguation soup self (fst qi) (snd qi) w0") simp
    then have "cache w2 = cache w0"
      by (rule disambiguation_cache)
    then show ?thesis
      using assms Pair Inr c d
      by (cases qi)
         (auto simp: load.simps init_defaults split: sum.splits bool.splits if_splits)
  qed
qed

lemma page_cache:
  "cache (snd (page soup sw title_arg pageid_arg redirect preload w)) = cache w"
proof -
  have "cache (snd (init soup self sw t p r pl ot w)) = cache w" for self t p r pl ot
  proof (cases "init_attrs self t p ot")
    case (Inl e)
    then show ?thesis
      by (simp add: init.simps)
  next
    case (Inr self1)
    obtain x w1 where l: "load soup (self1\<lparr>sub_wikia := Some sw\<rparr>) r pl w = (x, w1)"
      by (cases "load soup (self1\<lparr>sub_wikia := Some sw\<rparr>) r pl w") simp
    then have "cache w1 = cache w"
      by (rule load_cache)
    then show ?thesis
      using Inr l by (cases x) (simp_all add: init.simps)
  qed
  then show ?thesis
    by (simp add: page_def split: option.splits)
qed

lemma search_cache:
  "cache (snd (search query sw results w)) = cache w"
proof (cases "wiki_request
             [(''action'', JStr ''Search/List?/''), (''sub_wikia'', sw),
              (''lang'', JStr (LANG w)), (''limit'', results), (''query'', query)] w")
  case (Pair x w1)
  then have "cache w1 = cache w"
    by (rule wiki_request_cache)
  then show ?thesis
    using Pair by (cases x) (simp_all add: search_def split: sum.splits)
qed

lemma summary_cache:
  "cache (snd (summary soup title_arg sw chars redirect w)) = cache w"
proof (cases "page soup sw title_arg JNull redirect False w")
  case (Pair x w1)
  have c1: "cache w1 = cache w"
    using page_cache [of soup sw title_arg JNull redirect False w] Pair by simp
  show ?thesis
  proof (cases x)
    case (Inl e)
    then show ?thesis
      using Pair c1 by (simp add: summary_def)
  next
    case (Inr page_info)
    have "cache w2 = cache w1" if "wiki_request ps w1 = (y, w2)" for ps y w2
      using that by (rule wiki_request_cache)
    then show ?thesis
      using Pair Inr c1
      by (auto simp: summary_def split: sum.splits prod.splits)
  qed
qed

text \<open>
  The request of \<^verbatim>\<open>languages\<close> has no \<^verbatim>\<open>lang\<close>, \<^verbatim>\<open>sub_wikia\<close> or \<^verbatim>\<open>action\<close>: building
  the URL fails on every call, and nothing is ever stored for it.
\<close>

lemma languages_raises: "languages w = (Inl (KeyError ''lang''), w)"
  by (simp add: languages_def wiki_request_def format_API_URL_def format_field_def)

lemma cached_other_store:
  assumes "cache (snd (compute w)) g = cache w g" and "g \<noteq> f"
  shows "cache (snd (cached f compute key w)) g = cache w g"
proof (cases "map_of (cache w f) key")
  case None
  obtain x w1 where c: "compute w = (x, w1)"
    by (cases "compute w") simp
  then show ?thesis
    using None assms by (cases x) (simp_all add: cached_def)
next
  case (Some v)
  then show ?thesis
    by (simp add: cached_def)
qed

lemma cached_languages_store:
  "cache (snd (cached Languages languages key w)) = cache w"
  by (cases "map_of (cache w Languages) key") (simp_all add: cached_def languages_raises)

lemma reachable_languages_empty:
  "reachable w \<Longrightarrow> cache w Languages = []"
proof (induction rule: reachable.induct)
  case (start w)
  then show ?case by simp
next
  case (lang w language)
  then show ?case by (simp add: set_lang_def clear_cache_def)
next
  case (user_agent w user_agent_string)
  then show ?case by (simp add: set_user_agent_def)
next
  case (rate_limiting w rate_limit min_wait)
  then show ?case by (simp add: set_rate_limiting_def)
next
  case (request w params)
  then show ?case
    using wiki_request_cache [of params w "fst (wiki_request params w)" "snd (wiki_request params w)"]
    by simp
next
  case (resolve w soup sub_wikia_arg title_arg pageid_arg redirect preload)
  then show ?case by (simp add: page_cache)
next
  case (call_search w query sub_wikia_arg results key)
  then show ?case
    by (simp add: cached_other_store search_cache)
next
  case (call_summary w soup title_arg sub_wikia_arg chars redirect key)
  then show ?case
    by (simp add: cached_other_store summary_cache)
next
  case (call_languages w key)
  then show ?case by (simp add: cached_languages_store)
next
  case (clear w f)
  then show ?case by (simp add: clear_cache_def)
qed

lemma fst_cached_miss:
  "map_of (cache w f) key = None \<Longrightarrow> fst (cached f compute key w) = fst (compute w)"
  by (simp add: cached_def split: prod.splits sum.splits)

text \<open>
  C6. In every state the module can be in, \<^verbatim>\<open>set_lang\<close> leaves no stored entry of any
  cache-wrapped function, so that the next call of any of them, with any argument
  signature, returns what a fresh computation returns. \<^verbatim>\<open>set_lang\<close> clears the stores
  of \<^verbatim>\<open>search\<close> and \<^verbatim>\<open>summary\<close>; the store of \<^verbatim>\<open>languages\<close> is empty because no call
  of \<^verbatim>\<open>languages\<close> ever returns a result to store.
\<close>

theorem set_lang_discards_every_cache:
  assumes "reachable w"
  shows "cache (set_lang language w) f = []
       \<and> fst (cached f compute key (set_lang language w)) = fst (compute (set_lang language w))"
proof -
  have "cache w Languages = []"
    using assms by (rule reachable_languages_empty)
  then have e: "cache (set_lang language w) f = []"
    by (cases f) (simp_all add: set_lang_def clear_cache_def)
  then have "fst (cached f compute key (set_lang language w)) = fst (compute (set_lang language w))"
    by (simp add: fst_cached_miss)
  with e show ?thesis
    by simp
qed

lemma searched_world_store:
  "cache searched_world Search = [(search_key, JList [JStr ''Zamorak''])]"
proof -
  let ?p = "[(''action'', JStr ''Search/List?/''), (''sub_wikia'', JStr ''runescape''),
             (''lang'', JStr ''en.''), (''limit'', JInt 10), (''query'', JStr ''zam'')]"
  have u: "format_API_URL ?p = Inr ''http://en.runescape.wikia.com/api/v1/Search/List?/''"
    by (simp add: format_API_URL_def format_field_def)
  have g: "gate_ready (one_answer search_response)"
    and p: "pending (one_answer search_response) = (20000, Json search_response) # []"
    and l: "LANG (one_answer search_response) = ''en.''"
    and c0: "cache (one_answer search_response) = (\<lambda>f. [])"
    by (simp_all add: gate_ready_def one_answer_def example_world_def)
  have c: "check_exception search_response = Inr search_response"
    by (simp add: check_exception_def search_response_def)
  from wiki_request_step [OF u g p c] obtain w1 where
    w1: "wiki_request ?p (one_answer search_response) = (Inr search_response, w1)"
      "cache w1 = cache (one_answer search_response)"
    by (elim exE conjE)
  have "search (JStr ''zam'') (JStr ''runescape'') (JInt 10) (one_answer search_response)
          = (Inr (JList [JStr ''Zamorak'']), w1)"
    by (simp add: search_def l w1(1)) (simp add: search_response_def)
  then show ?thesis
    using w1(2) c0 by (simp add: searched_world_def cached_def)
qed

text \<open>
  After a search has stored its result, \<^verbatim>\<open>set_lang\<close> empties the store and the same
  search is computed afresh.
\<close>

theorem set_lang_discards_every_cache_witness:
  "cache searched_world Search = [(search_key, JList [JStr ''Zamorak''])]
   \<and> cache (set_lang ''de'' searched_world) Search = []
   \<and> fst (cached Search (search (JStr ''zam'') (JStr ''runescape'') (JInt 10)) search_key
             (set_lang ''de'' searched_world))
       = fst (search (JStr ''zam'') (JStr ''runescape'') (JInt 10) (set_lang ''de'' searched_world))"
proof -
  have "reachable (one_answer search_response)"
    by (rule reachable.start) (simp add: one_answer_def example_world_def)
  then have "reachable searched_world"
    unfolding searched_world_def by (rule reachable.call_search)
  from set_lang_discards_every_cache [OF this]
  show ?thesis
    by (simp add: searched_world_store)
qed

end
